theory Spec2Isabelle
  imports Main "HOL-Library.Word" "HOL-Library.Sublist"
begin

unbundle bit_operations_syntax

section \<open>Data model (VulkanQueueRunner.h)\<close>

text \<open>
  A \<open>VKRFramebuffer *\<close> is an address; \<open>nullptr\<close> (address 0) stands for the
  backbuffer. Vulkan handles (\<open>VkImage\<close>, \<open>VkRenderPass\<close>, \<open>VkBuffer\<close>, ...) are
  numbers as well, with \<open>VK_NULL_HANDLE = 0\<close>.
\<close>

type_synonym fbptr = nat

abbreviation (input) nullptr :: nat where
  "nullptr \<equiv> 0"

abbreviation (input) VK_NULL_HANDLE :: nat where
  "VK_NULL_HANDLE \<equiv> 0"

datatype VkImageLayout =
    VK_IMAGE_LAYOUT_UNDEFINED
  | VK_IMAGE_LAYOUT_GENERAL
  | VK_IMAGE_LAYOUT_COLOR_ATTACHMENT_OPTIMAL
  | VK_IMAGE_LAYOUT_DEPTH_STENCIL_ATTACHMENT_OPTIMAL
  | VK_IMAGE_LAYOUT_DEPTH_STENCIL_READ_ONLY_OPTIMAL
  | VK_IMAGE_LAYOUT_SHADER_READ_ONLY_OPTIMAL
  | VK_IMAGE_LAYOUT_TRANSFER_SRC_OPTIMAL
  | VK_IMAGE_LAYOUT_TRANSFER_DST_OPTIMAL
  | VK_IMAGE_LAYOUT_PREINITIALIZED
  | VK_IMAGE_LAYOUT_PRESENT_SRC_KHR

datatype VKRRenderCommand =
    REMOVED
  | BIND_PIPELINE
  | STENCIL
  | BLEND
  | VIEWPORT
  | SCISSOR
  | CLEAR_CMD
  | DRAW
  | DRAW_INDEXED
  | PUSH_CONSTANTS
  | NUM_RENDER_COMMANDS

datatype VKRStepType =
    RENDER
  | RENDER_SKIP
  | COPY
  | BLIT
  | READBACK
  | READBACK_IMAGE

datatype VKRRenderPassAction =
    DONT_CARE
  | CLEAR
  | KEEP

subsection \<open>TinySet<VKRFramebuffer *, 8>\<close>

text \<open>
  The insert-only small set: \<open>fastLookup\<close> holds the first \<open>fastCount\<close> entries of the
  inline array, \<open>slowLookup\<close> the overflow vector (\<open>None\<close> while it is not allocated).
\<close>

record TinySet =
  fastLookup :: "fbptr list"
  slowLookup :: "fbptr list option"

definition MaxFastSize :: nat where
  "MaxFastSize = 8"

definition TinySet_empty :: TinySet where
  "TinySet_empty = \<lparr>fastLookup = [], slowLookup = None\<rparr>"

definition insertSlow :: "fbptr \<Rightarrow> TinySet \<Rightarrow> TinySet" where
  "insertSlow t s =
     (case slowLookup s of
        None \<Rightarrow> s\<lparr>slowLookup := Some [t]\<rparr>
      | Some xs \<Rightarrow> if List.member xs t then s else s\<lparr>slowLookup := Some (xs @ [t])\<rparr>)"

definition TinySet_insert :: "fbptr \<Rightarrow> TinySet \<Rightarrow> TinySet" where
  "TinySet_insert t s =
     (if List.member (fastLookup s) t then s
      else if length (fastLookup s) < MaxFastSize then s\<lparr>fastLookup := fastLookup s @ [t]\<rparr>
      else insertSlow t s)"

definition TinySet_contains :: "TinySet \<Rightarrow> fbptr \<Rightarrow> bool" where
  "TinySet_contains s t =
     (List.member (fastLookup s) t \<or>
      (case slowLookup s of None \<Rightarrow> False | Some xs \<Rightarrow> List.member xs t))"

text \<open>The overload \<open>contains(const TinySet &otherSet)\<close>: do the two sets share an element?\<close>

definition TinySet_contains_set :: "TinySet \<Rightarrow> TinySet \<Rightarrow> bool" where
  "TinySet_contains_set s otherSet =
     (list_ex (TinySet_contains otherSet) (fastLookup s) \<or>
      (case slowLookup s of None \<Rightarrow> False | Some xs \<Rightarrow> list_ex (TinySet_contains otherSet) xs))"

subsection \<open>Recorded commands and steps\<close>

text \<open>
  \<open>VkRenderData\<close> is a tag and a union. The fields kept are the ones the queue runner
  reads; \<open>draw_count\<close> is what the expression \<open>cmd.draw.count\<close> reads (whatever member is
  active), \<open>payload\<close> stands for the remaining bytes of the union (buffers, offsets,
  rectangles, constants), which the queue runner passes on to the driver.
\<close>

record VkRenderData =
  cmd :: VKRRenderCommand
  pipeline :: nat
  draw_count :: "32 word"
  stencilWriteMask :: "8 word"
  stencilCompareMask :: "8 word"
  stencilRef :: "8 word"
  clearMask :: "32 word"
  payload :: nat

record TransitionRequest =
  req_fb :: fbptr
  targetLayout :: VkImageLayout

record VkRect2D =
  offset_x :: int
  offset_y :: int
  extent_width :: "32 word"
  extent_height :: "32 word"

record VKRRender =
  framebuffer :: fbptr
  color :: VKRRenderPassAction
  depth :: VKRRenderPassAction
  stencil :: VKRRenderPassAction
  clearColor :: "32 word"
  clearDepth :: "32 word"
  clearStencil :: int
  numDraws :: int
  numReads :: int
  finalColorLayout :: VkImageLayout

record VKRCopy =
  copy_src :: fbptr
  copy_dst :: fbptr
  copy_srcRect :: VkRect2D
  copy_dstPos :: "int \<times> int"
  copy_aspectMask :: "32 word"

record VKRBlit =
  blit_src :: fbptr
  blit_dst :: fbptr
  blit_srcRect :: VkRect2D
  blit_dstRect :: VkRect2D
  blit_aspectMask :: "32 word"
  blit_filter :: nat

record VKRReadback =
  readback_aspectMask :: "32 word"
  readback_src :: fbptr
  readback_srcRect :: VkRect2D

record VKRReadbackImage =
  readback_image_image :: nat
  readback_image_srcRect :: VkRect2D
  readback_image_mipLevel :: int

text \<open>
  \<open>VKRStep\<close>: the tag, the vectors and the union. Each member of the union is a field
  of its own; the fields of a member that is not the active one are unconstrained, so a
  statement about all steps covers whatever the overlapping storage holds.
  The step vector \<open>std::vector<VKRStep *>\<close> is a list of steps: the recorder allocates
  every step once, so the pointers of a frame are distinct.
\<close>

record VKRStep =
  stepType :: VKRStepType
  commands :: "VkRenderData list"
  preTransitions :: "TransitionRequest list"
  dependencies :: TinySet
  render :: VKRRender
  copy :: VKRCopy
  blit :: VKRBlit
  readback :: VKRReadback
  readback_image :: VKRReadbackImage

text \<open>
  The constructor \<open>VKRStep(VKRStepType _type)\<close> sets the tag; the vectors and the
  dependency set start empty. The union is left uninitialised by the source; the model
  starts it at zero.
\<close>

definition VKRStep_new :: "VKRStepType \<Rightarrow> VKRStep" where
  "VKRStep_new ty =
     \<lparr>stepType = ty, commands = [], preTransitions = [], dependencies = TinySet_empty,
      render = \<lparr>framebuffer = nullptr, color = DONT_CARE, depth = DONT_CARE, stencil = DONT_CARE,
                clearColor = 0, clearDepth = 0, clearStencil = 0, numDraws = 0, numReads = 0,
                finalColorLayout = VK_IMAGE_LAYOUT_UNDEFINED\<rparr>,
      copy = \<lparr>copy_src = nullptr, copy_dst = nullptr,
              copy_srcRect = \<lparr>offset_x = 0, offset_y = 0, extent_width = 0, extent_height = 0\<rparr>,
              copy_dstPos = (0, 0), copy_aspectMask = 0\<rparr>,
      blit = \<lparr>blit_src = nullptr, blit_dst = nullptr,
              blit_srcRect = \<lparr>offset_x = 0, offset_y = 0, extent_width = 0, extent_height = 0\<rparr>,
              blit_dstRect = \<lparr>offset_x = 0, offset_y = 0, extent_width = 0, extent_height = 0\<rparr>,
              blit_aspectMask = 0, blit_filter = 0\<rparr>,
      readback = \<lparr>readback_aspectMask = 0, readback_src = nullptr,
                  readback_srcRect = \<lparr>offset_x = 0, offset_y = 0, extent_width = 0, extent_height = 0\<rparr>\<rparr>,
      readback_image = \<lparr>readback_image_image = 0,
                  readback_image_srcRect = \<lparr>offset_x = 0, offset_y = 0, extent_width = 0, extent_height = 0\<rparr>,
                  readback_image_mipLevel = 0\<rparr>\<rparr>"

section \<open>The generic render-pass merge (ApplyRenderPassMerge)\<close>

text \<open>The first loop: \<open>counts[steps[i]->render.framebuffer]++\<close> for every RENDER step.\<close>

definition render_counts :: "VKRStep list \<Rightarrow> fbptr \<Rightarrow> int" where
  "render_counts steps =
     foldl (\<lambda>counts s. if stepType s = RENDER
                         then counts(framebuffer (render s) := counts (framebuffer (render s)) + 1)
                         else counts)
           (\<lambda>_. 0) steps"

text \<open>
  The inner loop \<open>for (j = i + 1; j < steps.size(); j++)\<close> for the head \<open>i\<close> and its
  framebuffer \<open>fb\<close>; returning \<open>steps\<close> is \<open>goto done_fb\<close>.
\<close>

function merge_scan :: "fbptr \<Rightarrow> nat \<Rightarrow> TinySet \<Rightarrow> nat \<Rightarrow> VKRStep list \<Rightarrow> VKRStep list" where
  "merge_scan fb i touchedFramebuffers j steps =
     (if j < length steps then
        (case stepType (steps ! j) of
           RENDER \<Rightarrow>
             if TinySet_contains (dependencies (steps ! j)) fb then steps
             else if TinySet_contains_set (dependencies (steps ! j)) touchedFramebuffers then steps
             else
               merge_scan fb i
                 (if framebuffer (render (steps ! j)) \<noteq> fb
                  then TinySet_insert (framebuffer (render (steps ! j))) touchedFramebuffers
                  else touchedFramebuffers)
                 (j + 1)
                 (if framebuffer (render (steps ! j)) = fb
                  then (steps[i := (steps ! i)
                           \<lparr>commands := commands (steps ! i) @ commands (steps ! j),
                            preTransitions := preTransitions (steps ! i) @ preTransitions (steps ! j)\<rparr>])
                        [j := (steps ! j)\<lparr>stepType := RENDER_SKIP\<rparr>]
                  else steps)
         | COPY \<Rightarrow>
             if copy_src (copy (steps ! j)) = fb \<or> copy_dst (copy (steps ! j)) = fb then steps
             else merge_scan fb i (TinySet_insert (copy_dst (copy (steps ! j))) touchedFramebuffers)
                    (j + 1) steps
         | BLIT \<Rightarrow>
             if blit_src (blit (steps ! j)) = fb \<or> blit_dst (blit (steps ! j)) = fb then steps
             else merge_scan fb i (TinySet_insert (blit_dst (blit (steps ! j))) touchedFramebuffers)
                    (j + 1) steps
         | READBACK \<Rightarrow>
             if readback_src (readback (steps ! j)) = fb then steps
             else merge_scan fb i touchedFramebuffers (j + 1) steps
         | RENDER_SKIP \<Rightarrow> merge_scan fb i touchedFramebuffers (j + 1) steps
         | READBACK_IMAGE \<Rightarrow> merge_scan fb i touchedFramebuffers (j + 1) steps)
      else steps)"
  by pat_completeness auto
termination
  by (relation "measure (\<lambda>(fb, i, t, j, steps). length steps - j)") auto

declare merge_scan.simps [simp del]

lemma length_merge_scan [simp]:
  "length (merge_scan fb i t j steps) = length steps"
  by (induction fb i t j steps rule: merge_scan.induct)
     (subst merge_scan.simps, auto split: VKRStepType.splits)

text \<open>The outer loop over the heads.\<close>

function merge_loop :: "(fbptr \<Rightarrow> int) \<Rightarrow> nat \<Rightarrow> VKRStep list \<Rightarrow> VKRStep list" where
  "merge_loop counts i steps =
     (if i < length steps then
        merge_loop counts (i + 1)
          (if stepType (steps ! i) = RENDER \<and> counts (framebuffer (render (steps ! i))) > 1
           then merge_scan (framebuffer (render (steps ! i))) i TinySet_empty (i + 1) steps
           else steps)
      else steps)"
  by pat_completeness auto
termination
  by (relation "measure (\<lambda>(counts, i, steps). length steps - i)") auto

declare merge_loop.simps [simp del]

definition ApplyRenderPassMerge :: "VKRStep list \<Rightarrow> VKRStep list" where
  "ApplyRenderPassMerge steps = merge_loop (render_counts steps) 0 steps"

text \<open>
  The commands recorded for a framebuffer: the command lists of the RENDER steps that
  target it, in step order.
\<close>

definition fb_commands :: "fbptr \<Rightarrow> VKRStep list \<Rightarrow> VkRenderData list" where
  "fb_commands f steps =
     concat (map commands (filter (\<lambda>s. stepType s = RENDER \<and> framebuffer (render s) = f) steps))"

section \<open>The first two loops of RunSteps\<close>

text \<open>
  Lines 388-395: a RENDER step to an offscreen framebuffer whose final color layout is
  UNDEFINED gets COLOR_ATTACHMENT_OPTIMAL. The loop visits every step once and changes
  only the step it visits.
\<close>

definition fix_final_layout :: "VKRStep \<Rightarrow> VKRStep" where
  "fix_final_layout s =
     (if stepType s = RENDER \<and> framebuffer (render s) \<noteq> nullptr \<and>
         finalColorLayout (render s) = VK_IMAGE_LAYOUT_UNDEFINED
      then s\<lparr>render := (render s)\<lparr>finalColorLayout := VK_IMAGE_LAYOUT_COLOR_ATTACHMENT_OPTIMAL\<rparr>\<rparr>
      else s)"

definition fix_final_layouts :: "VKRStep list \<Rightarrow> VKRStep list" where
  "fix_final_layouts steps = map fix_final_layout steps"

text \<open>
  Lines 397-434: push down empty clear passes. \<open>is_empty_clear\<close> is the test on
  \<open>steps[j]\<close>; \<open>clear_folded rj ri\<close> is what the three \<open>if\<close>s make of the render data
  \<open>ri\<close> of \<open>steps[i]\<close>, given the render data \<open>rj\<close> of \<open>steps[j]\<close>.
\<close>

definition is_empty_clear :: "VKRStep \<Rightarrow> bool" where
  "is_empty_clear s =
     (stepType s = RENDER \<and> numDraws (render s) = 0 \<and> numReads (render s) = 0 \<and>
      color (render s) = CLEAR \<and> stencil (render s) = CLEAR \<and> depth (render s) = CLEAR)"

definition clear_folded :: "VKRRender \<Rightarrow> VKRRender \<Rightarrow> VKRRender" where
  "clear_folded rj ri =
     (let r1 = (if color ri \<noteq> CLEAR then ri\<lparr>color := CLEAR, clearColor := clearColor rj\<rparr> else ri);
          r2 = (if depth r1 \<noteq> CLEAR then r1\<lparr>depth := CLEAR, clearDepth := clearDepth rj\<rparr> else r1);
          r3 = (if stencil r2 \<noteq> CLEAR then r2\<lparr>stencil := CLEAR, clearStencil := clearStencil rj\<rparr>
                else r2)
      in r3)"

text \<open>The inner loop \<open>for (i = j + 1; i < steps.size(); i++)\<close>; both \<open>break\<close>s return.\<close>

function clear_scan :: "nat \<Rightarrow> nat \<Rightarrow> VKRStep list \<Rightarrow> VKRStep list" where
  "clear_scan j i steps =
     (if i < length steps then
        if stepType (steps ! i) = RENDER \<and>
           framebuffer (render (steps ! i)) = framebuffer (render (steps ! j))
        then (steps[i := (steps ! i)\<lparr>render := clear_folded (render (steps ! j)) (render (steps ! i))\<rparr>])
               [j := (steps ! j)\<lparr>stepType := RENDER_SKIP\<rparr>]
        else if stepType (steps ! i) = COPY \<and>
                copy_src (copy (steps ! i)) = framebuffer (render (steps ! j))
        then steps
        else clear_scan j (i + 1) steps
      else steps)"
  by pat_completeness auto
termination
  by (relation "measure (\<lambda>(j, i, steps). length steps - i)") auto

declare clear_scan.simps [simp del]

lemma length_clear_scan [simp]: "length (clear_scan j i steps) = length steps"
  by (induction j i steps rule: clear_scan.induct) (subst clear_scan.simps, auto)

definition clear_iter :: "nat \<Rightarrow> VKRStep list \<Rightarrow> VKRStep list" where
  "clear_iter j steps =
     (if length steps > 1 \<and> is_empty_clear (steps ! j) then clear_scan j (j + 1) steps else steps)"

lemma length_clear_iter [simp]: "length (clear_iter j steps) = length steps"
  by (simp add: clear_iter_def)

text \<open>The outer loop \<open>for (j = 0; j < (int)steps.size() - 1; j++)\<close>.\<close>

function clear_loop :: "nat \<Rightarrow> VKRStep list \<Rightarrow> VKRStep list" where
  "clear_loop j steps =
     (if j + 1 < length steps then clear_loop (j + 1) (clear_iter j steps) else steps)"
  by pat_completeness auto
termination
  by (relation "measure (\<lambda>(j, steps). length steps - j)") auto

declare clear_loop.simps [simp del]

definition push_down_clears :: "VKRStep list \<Rightarrow> VKRStep list" where
  "push_down_clears steps = clear_loop 0 steps"

section \<open>Assertions\<close>

text \<open>
  The source uses three kinds of assertion. The C macro \<open>assert\<close> checks its condition
  unless the build defines \<open>NDEBUG\<close>. The macros \<open>_assert_\<close>, \<open>_assert_msg_\<close>,
  \<open>_dbg_assert_\<close> and \<open>_dbg_assert_msg_\<close> are declared outside the files at hand.

  Modelled from the spec: the assertion macros of the logging header. A failed
  \<open>_assert_\<close> or \<open>_assert_msg_\<close> is fatal in every build (section 7 of the spec: pass
  object creation failure, unsupported layout transition request and unsatisfiable
  memory type requirement abort); \<open>_dbg_assert_\<close> and \<open>_dbg_assert_msg_\<close> check their
  condition in builds with debug assertions only.
\<close>

record BuildConfig =
  NDEBUG :: bool
  DBG_ASSERTS :: bool

datatype fatal =
    ASSERT_MGS_RENDER_AFTER_COPIES
  | ASSERT_UNKNOWN_FORMAT
  | ASSERT_CREATE_RENDER_PASS
  | ASSERT_NULL_RENDER_PASS
  | ASSERT_MEMORY_TYPE
  | ASSERT_UNEXPECTED_OLD_LAYOUT
  | ASSERT_UNEXPECTED_NEW_LAYOUT
  | DBG_ASSERT_FINAL_LAYOUT_UNDEFINED
  | DBG_ASSERT_UNEXPECTED_COLOR_LAYOUT
  | DBG_ASSERT_UNEXPECTED_DEPTH_LAYOUT
  | DBG_ASSERT_UNEXPECTED_FINAL_LAYOUT
  | DBG_ASSERT_TRANSFER_SRC_UNSUPPORTED
  | DBG_ASSERT_TRANSFER_DST_UNSUPPORTED
  | DBG_ASSERT_NO_ASPECT
  | DBG_ASSERT_SCISSOR
  | STEP_IN_TWO_SLOTS

text \<open>
  \<open>STEP_IN_TWO_SLOTS\<close> is not an assertion of the source. The step vector holds
  pointers, and the lists of this model hold the steps themselves; the two agree as long
  as every pointer stands in the vector once. Where a rewrite leaves one pointer in two
  slots of the vector, the model yields this outcome in place of a list and does not
  follow the run further: from there on a write through one slot is a write through the
  other, and the loop at the end of RunSteps (lines 478-482) deletes the step twice.
\<close>

text \<open>A release build and a debug build.\<close>

definition release_build :: BuildConfig where
  "release_build = \<lparr>NDEBUG = True, DBG_ASSERTS = False\<rparr>"

definition debug_build :: BuildConfig where
  "debug_build = \<lparr>NDEBUG = False, DBG_ASSERTS = True\<rparr>"

section \<open>The queue hacks (ApplyMGSHack, ApplySonicHack)\<close>

definition QUEUE_HACK_MGS2_ACID :: "32 word" where
  "QUEUE_HACK_MGS2_ACID = 1"

definition QUEUE_HACK_SONIC :: "32 word" where
  "QUEUE_HACK_SONIC = 2"

definition QUEUE_HACK_RENDERPASS_MERGE :: "32 word" where
  "QUEUE_HACK_RENDERPASS_MERGE = 8"

text \<open>
  Writing a saved vector back into the step vector from index \<open>k\<close> on:
  \<open>for (j = 0; j < vec.size(); j++) steps[k + j] = vec[j]\<close>.
\<close>

primrec write_back :: "nat \<Rightarrow> 'a list \<Rightarrow> 'a list \<Rightarrow> 'a list" where
  "write_back k [] steps = steps"
| "write_back k (v # vec) steps = write_back (k + 1) vec (steps[k := v])"

text \<open>
  Combining the steps of a saved vector into its first one, which stands at index
  \<open>base\<close> after the write-back: for \<open>j\<close> from 1 on, the commands of \<open>vec[j]\<close> are pushed
  onto \<open>steps[base]\<close> and \<open>steps[base + j]\<close> becomes RENDER_SKIP.
\<close>

function combine_loop :: "nat \<Rightarrow> VKRStep list \<Rightarrow> nat \<Rightarrow> VKRStep list \<Rightarrow> VKRStep list" where
  "combine_loop base vec j steps =
     (if j < length vec then
        combine_loop base vec (j + 1)
          ((steps[base := (steps ! base)\<lparr>commands := commands (steps ! base) @ commands (vec ! j)\<rparr>])
             [base + j := (steps ! (base + j))\<lparr>stepType := RENDER_SKIP\<rparr>])
      else steps)"
  by pat_completeness auto
termination
  by (relation "measure (\<lambda>(base, vec, j, steps). length vec - j)") auto

declare combine_loop.simps [simp del]

subsection \<open>MGS: copy, render(1), copy, render(1), ...\<close>

definition mgs_copy_head :: "VKRStep list \<Rightarrow> nat \<Rightarrow> bool" where
  "mgs_copy_head steps i =
     (stepType (steps ! i) = COPY \<and>
      stepType (steps ! (i + 1)) = RENDER \<and>
      stepType (steps ! (i + 2)) = COPY \<and>
      numDraws (render (steps ! (i + 1))) = 1 \<and>
      copy_dst (copy (steps ! i)) = copy_dst (copy (steps ! (i + 2))))"

text \<open>The value of \<open>last\<close> after the \<open>switch\<close> on step \<open>j\<close> (\<open>- 1\<close>: not set).\<close>

definition mgs_copy_last_at :: "VKRStep list \<Rightarrow> nat \<Rightarrow> nat \<Rightarrow> int" where
  "mgs_copy_last_at steps i j =
     (case stepType (steps ! j) of
        RENDER \<Rightarrow>
          (let last1 = (if numDraws (render (steps ! j)) > 1 then int j - 1 else - 1)
           in if commands (steps ! j) \<noteq> [] \<and>
                 cmd (last (commands (steps ! j))) = DRAW_INDEXED \<and>
                 draw_count (last (commands (steps ! j))) \<noteq> 6
              then int j - 1 else last1)
      | COPY \<Rightarrow>
          if copy_dst (copy (steps ! j)) \<noteq> copy_dst (copy (steps ! i)) then int j - 1 else - 1
      | _ \<Rightarrow> - 1)"

function mgs_copy_scan :: "VKRStep list \<Rightarrow> nat \<Rightarrow> nat \<Rightarrow> int" where
  "mgs_copy_scan steps i j =
     (if j < length steps then
        if mgs_copy_last_at steps i j \<noteq> - 1 then mgs_copy_last_at steps i j
        else mgs_copy_scan steps i (j + 1)
      else - 1)"
  by pat_completeness auto
termination
  by (relation "measure (\<lambda>(steps, i, j). length steps - j)") auto

declare mgs_copy_scan.simps [simp del]

text \<open>
  The pointers of the vector after the two write-back loops (lines 537-544), each
  pointer named by the index at which it stood before. \<open>copies\<close> and \<open>renders\<close> collect
  the pointers of the COPY and of the RENDER steps of the window \<open>i .. lst\<close>; the
  write-back fills the first \<open>copies.size() + renders.size()\<close> slots of the window and
  leaves the rest of it as it was. When the window holds a step of another type before
  its last COPY or RENDER step, the slots left over still hold pointers that were also
  written back further up, and a pointer of the other type is lost.
\<close>

definition mgs_copy_slots :: "VKRStep list \<Rightarrow> nat \<Rightarrow> nat \<Rightarrow> nat list" where
  "mgs_copy_slots steps i lst =
     (let window = [i ..< lst + 1];
          copies = filter (\<lambda>n. stepType (steps ! n) = COPY) window;
          renders = filter (\<lambda>n. stepType (steps ! n) = RENDER) window
      in write_back (i + length copies) renders (write_back i copies [0 ..< length steps]))"

text \<open>
  The rewrite of the steps \<open>i .. lst\<close>: copies first, then renders, then the renders
  combined into the first of them. The \<open>assert\<close> is the C macro; it reads the vector
  before any step is written to. When every pointer still stands in the vector once, the
  list of steps after the rewrite is the result; otherwise the outcome is
  \<open>STEP_IN_TWO_SLOTS\<close>.
\<close>

definition mgs_copy_rewrite :: "BuildConfig \<Rightarrow> VKRStep list \<Rightarrow> nat \<Rightarrow> nat \<Rightarrow> fatal + VKRStep list" where
  "mgs_copy_rewrite b steps i lst =
     (let range = take (lst + 1 - i) (drop i steps);
          copies = filter (\<lambda>s. stepType s = COPY) range;
          renders = filter (\<lambda>s. stepType s = RENDER) range;
          steps1 = write_back i copies steps;
          steps2 = write_back (i + length copies) renders steps1
      in if \<not> NDEBUG b \<and> stepType (steps2 ! (i + length copies)) \<noteq> RENDER
         then Inl ASSERT_MGS_RENDER_AFTER_COPIES
         else if \<not> distinct (mgs_copy_slots steps i lst) then Inl STEP_IN_TWO_SLOTS
         else Inr (combine_loop (i + length copies) renders 1 steps2))"

function mgs_copy_loop :: "BuildConfig \<Rightarrow> VKRStep list \<Rightarrow> nat \<Rightarrow> fatal + VKRStep list" where
  "mgs_copy_loop b steps i =
     (if i + 3 < length steps then
        if \<not> mgs_copy_head steps i then mgs_copy_loop b steps (i + 1)
        else if mgs_copy_scan steps i i \<noteq> - 1
             then mgs_copy_rewrite b steps i (nat (mgs_copy_scan steps i i))
             else mgs_copy_loop b steps (i + 1)
      else Inr steps)"
  by pat_completeness auto
termination
  by (relation "measure (\<lambda>(b, steps, i). length steps - i)") auto

declare mgs_copy_loop.simps [simp del]

subsection \<open>MGS: the depal post-processing sequence\<close>

definition mgs_depal_head :: "VKRStep list \<Rightarrow> nat \<Rightarrow> bool" where
  "mgs_depal_head steps i =
     (stepType (steps ! i) = RENDER \<and>
      stepType (steps ! (i + 1)) = RENDER \<and>
      stepType (steps ! (i + 2)) = RENDER \<and>
      numDraws (render (steps ! i)) = 1 \<and>
      numDraws (render (steps ! (i + 1))) = 1 \<and>
      numDraws (render (steps ! (i + 2))) = 1 \<and>
      color (render (steps ! i)) = DONT_CARE \<and>
      color (render (steps ! (i + 1))) = KEEP \<and>
      color (render (steps ! (i + 2))) = DONT_CARE)"

text \<open>
  The scan \<open>for (j = i; j < steps.size() - 3; j++)\<close> reads \<open>steps[j]->render\<close> without
  looking at the type of the step. The comparison is unsigned; the loop is entered with
  at least four steps, so \<open>steps.size() - 3\<close> does not wrap.
\<close>

function mgs_depal_scan :: "VKRStep list \<Rightarrow> nat \<Rightarrow> fbptr \<Rightarrow> fbptr \<Rightarrow> nat \<Rightarrow> int \<Rightarrow> int" where
  "mgs_depal_scan steps i depalFramebuffer targetFramebuffer j lst =
     (if j + 3 < length steps then
        if (j - i) mod 2 = 0 then
          if numDraws (render (steps ! j)) \<noteq> 1 then lst
          else if color (render (steps ! j)) \<noteq> DONT_CARE then lst
          else if framebuffer (render (steps ! j)) \<noteq> depalFramebuffer then lst
          else mgs_depal_scan steps i depalFramebuffer targetFramebuffer (j + 1) (int j)
        else
          if numDraws (render (steps ! j)) \<noteq> 1 then lst
          else if color (render (steps ! j)) \<noteq> KEEP then lst
          else if framebuffer (render (steps ! j)) \<noteq> targetFramebuffer then lst
          else mgs_depal_scan steps i depalFramebuffer targetFramebuffer (j + 1) (int j)
      else lst)"
  by pat_completeness auto
termination
  by (relation "measure (\<lambda>(steps, i, d, t, j, lst). length steps - j)") auto

declare mgs_depal_scan.simps [simp del]

definition draws_only :: "VkRenderData list \<Rightarrow> VkRenderData list" where
  "draws_only cs = filter (\<lambda>c. cmd c = DRAW \<or> cmd c = DRAW_INDEXED) cs"

text \<open>
  \<open>for (j = from; j <= bound; j += 2)\<close>: the draws of \<open>steps[j]\<close> are pushed onto
  \<open>steps[dest]\<close> and \<open>steps[j]\<close> becomes RENDER_SKIP.
\<close>

function combine_draws :: "nat \<Rightarrow> nat \<Rightarrow> int \<Rightarrow> VKRStep list \<Rightarrow> VKRStep list" where
  "combine_draws dest j bound steps =
     (if int j \<le> bound then
        combine_draws dest (j + 2) bound
          ((steps[dest := (steps ! dest)
                \<lparr>commands := commands (steps ! dest) @ draws_only (commands (steps ! j))\<rparr>])
             [j := (steps ! j)\<lparr>stepType := RENDER_SKIP\<rparr>])
      else steps)"
  by pat_completeness auto
termination
  by (relation "measure (\<lambda>(dest, j, bound, steps). nat (bound + 1 - int j))") auto

declare combine_draws.simps [simp del]

function mgs_depal_loop :: "VKRStep list \<Rightarrow> nat \<Rightarrow> VKRStep list" where
  "mgs_depal_loop steps i =
     (if i + 3 < length steps then
        if \<not> mgs_depal_head steps i then mgs_depal_loop steps (i + 1)
        else
          (let lst = mgs_depal_scan steps i (framebuffer (render (steps ! i)))
                       (framebuffer (render (steps ! (i + 1)))) i (- 1)
           in if lst = - 1 then mgs_depal_loop steps (i + 1)
              else combine_draws (i + 1) (i + 3) lst (combine_draws i (i + 2) (lst + 1) steps))
      else steps)"
  by pat_completeness auto
termination
  by (relation "measure (\<lambda>(steps, i). length steps - i)") auto

declare mgs_depal_loop.simps [simp del]

definition ApplyMGSHack :: "BuildConfig \<Rightarrow> VKRStep list \<Rightarrow> fatal + VKRStep list" where
  "ApplyMGSHack b steps =
     (case mgs_copy_loop b steps 0 of
        Inl e \<Rightarrow> Inl e
      | Inr steps1 \<Rightarrow> Inr (mgs_depal_loop steps1 0))"

subsection \<open>Sonic: render(3), render(1), render(6), render(1), ...\<close>

definition sonic_head :: "VKRStep list \<Rightarrow> nat \<Rightarrow> bool" where
  "sonic_head steps i =
     (stepType (steps ! i) = RENDER \<and>
      stepType (steps ! (i + 1)) = RENDER \<and>
      stepType (steps ! (i + 2)) = RENDER \<and>
      stepType (steps ! (i + 3)) = RENDER \<and>
      numDraws (render (steps ! i)) = 3 \<and>
      numDraws (render (steps ! (i + 1))) = 1 \<and>
      numDraws (render (steps ! (i + 2))) = 6 \<and>
      numDraws (render (steps ! (i + 3))) = 1 \<and>
      framebuffer (render (steps ! i)) = framebuffer (render (steps ! (i + 2))) \<and>
      framebuffer (render (steps ! (i + 1))) = framebuffer (render (steps ! (i + 3))))"

definition sonic_last_at :: "VKRStep list \<Rightarrow> nat \<Rightarrow> nat \<Rightarrow> int" where
  "sonic_last_at steps i j =
     (case stepType (steps ! j) of
        RENDER \<Rightarrow>
          if (j - i) mod 2 = 1 then
            if framebuffer (render (steps ! j)) \<noteq> framebuffer (render (steps ! (i + 1))) \<or>
               numDraws (render (steps ! j)) \<noteq> 1
            then int j - 1 else - 1
          else
            if framebuffer (render (steps ! j)) \<noteq> framebuffer (render (steps ! i)) \<or>
               (numDraws (render (steps ! j)) \<noteq> 3 \<and> numDraws (render (steps ! j)) \<noteq> 6)
            then int j - 1 else - 1
      | _ \<Rightarrow> - 1)"

function sonic_scan :: "VKRStep list \<Rightarrow> nat \<Rightarrow> nat \<Rightarrow> int" where
  "sonic_scan steps i j =
     (if j < length steps then
        if sonic_last_at steps i j \<noteq> - 1 then sonic_last_at steps i j
        else sonic_scan steps i (j + 1)
      else - 1)"
  by pat_completeness auto
termination
  by (relation "measure (\<lambda>(steps, i, j). length steps - j)") auto

declare sonic_scan.simps [simp del]

text \<open>
  The rewrite of the steps \<open>i .. lst\<close>. The partition reads \<open>steps[n]->render.framebuffer\<close>
  of every step of the range, whatever its type. Every step of the range goes into one
  of the two vectors, so the write-back permutes the pointers of the range and none
  comes to stand in the vector twice.
\<close>

definition sonic_rewrite :: "VKRStep list \<Rightarrow> nat \<Rightarrow> nat \<Rightarrow> VKRStep list" where
  "sonic_rewrite steps i lst =
     (let range = take (lst + 1 - i) (drop i steps);
          type1 = filter (\<lambda>s. framebuffer (render s) = framebuffer (render (steps ! i))) range;
          type2 = filter (\<lambda>s. framebuffer (render s) \<noteq> framebuffer (render (steps ! i))) range;
          steps1 = write_back i type1 steps;
          steps2 = write_back (i + length type1) type2 steps1;
          steps3 = combine_loop i type1 1 steps2
      in combine_loop (i + length type1) type2 1 steps3)"

function sonic_loop :: "VKRStep list \<Rightarrow> nat \<Rightarrow> VKRStep list" where
  "sonic_loop steps i =
     (if i + 4 < length steps then
        if \<not> sonic_head steps i then sonic_loop steps (i + 1)
        else if sonic_scan steps i i \<noteq> - 1
             then sonic_rewrite steps i (nat (sonic_scan steps i i))
             else sonic_loop steps (i + 1)
      else steps)"
  by pat_completeness auto
termination
  by (relation "measure (\<lambda>(steps, i). length steps - i)") auto

declare sonic_loop.simps [simp del]

definition ApplySonicHack :: "VKRStep list \<Rightarrow> VKRStep list" where
  "ApplySonicHack steps = sonic_loop steps 0"

subsection \<open>The hack switch of RunSteps (lines 436-448)\<close>

definition apply_hacks :: "BuildConfig \<Rightarrow> 32 word \<Rightarrow> VKRStep list \<Rightarrow> fatal + VKRStep list" where
  "apply_hacks b hacksEnabled steps =
     (if hacksEnabled \<noteq> 0 then
        (case (if hacksEnabled AND QUEUE_HACK_MGS2_ACID \<noteq> 0 then ApplyMGSHack b steps
               else Inr steps) of
           Inl e \<Rightarrow> Inl e
         | Inr steps1 \<Rightarrow>
             (let steps2 = (if hacksEnabled AND QUEUE_HACK_SONIC \<noteq> 0
                            then ApplySonicHack steps1 else steps1);
                  steps3 = (if hacksEnabled AND QUEUE_HACK_RENDERPASS_MERGE \<noteq> 0
                            then ApplyRenderPassMerge steps2 else steps2)
              in Inr steps3))
      else Inr steps)"

text \<open>The optimizer of RunSteps: everything before the execution loop.\<close>

definition optimize_steps :: "BuildConfig \<Rightarrow> 32 word \<Rightarrow> VKRStep list \<Rightarrow> fatal + VKRStep list" where
  "optimize_steps b hacksEnabled steps =
     apply_hacks b hacksEnabled (push_down_clears (fix_final_layouts steps))"

section \<open>Vulkan objects and the state of the queue runner\<close>

text \<open>
  The flag values of the Vulkan headers (\<open>VkAccessFlagBits\<close>, \<open>VkPipelineStageFlagBits\<close>,
  \<open>VkImageAspectFlagBits\<close>, \<open>VkMemoryPropertyFlagBits\<close>).
\<close>

definition VK_ACCESS_SHADER_READ_BIT :: "32 word" where
  "VK_ACCESS_SHADER_READ_BIT = 0x20"
definition VK_ACCESS_COLOR_ATTACHMENT_READ_BIT :: "32 word" where
  "VK_ACCESS_COLOR_ATTACHMENT_READ_BIT = 0x80"
definition VK_ACCESS_COLOR_ATTACHMENT_WRITE_BIT :: "32 word" where
  "VK_ACCESS_COLOR_ATTACHMENT_WRITE_BIT = 0x100"
definition VK_ACCESS_DEPTH_STENCIL_ATTACHMENT_READ_BIT :: "32 word" where
  "VK_ACCESS_DEPTH_STENCIL_ATTACHMENT_READ_BIT = 0x200"
definition VK_ACCESS_DEPTH_STENCIL_ATTACHMENT_WRITE_BIT :: "32 word" where
  "VK_ACCESS_DEPTH_STENCIL_ATTACHMENT_WRITE_BIT = 0x400"
definition VK_ACCESS_TRANSFER_READ_BIT :: "32 word" where
  "VK_ACCESS_TRANSFER_READ_BIT = 0x800"
definition VK_ACCESS_TRANSFER_WRITE_BIT :: "32 word" where
  "VK_ACCESS_TRANSFER_WRITE_BIT = 0x1000"

definition VK_PIPELINE_STAGE_FRAGMENT_SHADER_BIT :: "32 word" where
  "VK_PIPELINE_STAGE_FRAGMENT_SHADER_BIT = 0x80"
definition VK_PIPELINE_STAGE_EARLY_FRAGMENT_TESTS_BIT :: "32 word" where
  "VK_PIPELINE_STAGE_EARLY_FRAGMENT_TESTS_BIT = 0x100"
definition VK_PIPELINE_STAGE_LATE_FRAGMENT_TESTS_BIT :: "32 word" where
  "VK_PIPELINE_STAGE_LATE_FRAGMENT_TESTS_BIT = 0x200"
definition VK_PIPELINE_STAGE_COLOR_ATTACHMENT_OUTPUT_BIT :: "32 word" where
  "VK_PIPELINE_STAGE_COLOR_ATTACHMENT_OUTPUT_BIT = 0x400"
definition VK_PIPELINE_STAGE_TRANSFER_BIT :: "32 word" where
  "VK_PIPELINE_STAGE_TRANSFER_BIT = 0x1000"
definition VK_PIPELINE_STAGE_BOTTOM_OF_PIPE_BIT :: "32 word" where
  "VK_PIPELINE_STAGE_BOTTOM_OF_PIPE_BIT = 0x2000"
definition VK_PIPELINE_STAGE_ALL_COMMANDS_BIT :: "32 word" where
  "VK_PIPELINE_STAGE_ALL_COMMANDS_BIT = 0x10000"

definition VK_IMAGE_ASPECT_COLOR_BIT :: "32 word" where
  "VK_IMAGE_ASPECT_COLOR_BIT = 1"
definition VK_IMAGE_ASPECT_DEPTH_BIT :: "32 word" where
  "VK_IMAGE_ASPECT_DEPTH_BIT = 2"
definition VK_IMAGE_ASPECT_STENCIL_BIT :: "32 word" where
  "VK_IMAGE_ASPECT_STENCIL_BIT = 4"

definition VK_MEMORY_PROPERTY_HOST_VISIBLE_BIT :: "32 word" where
  "VK_MEMORY_PROPERTY_HOST_VISIBLE_BIT = 2"
definition VK_MEMORY_PROPERTY_HOST_COHERENT_BIT :: "32 word" where
  "VK_MEMORY_PROPERTY_HOST_COHERENT_BIT = 4"
definition VK_MEMORY_PROPERTY_HOST_CACHED_BIT :: "32 word" where
  "VK_MEMORY_PROPERTY_HOST_CACHED_BIT = 8"

definition VK_SUBPASS_EXTERNAL :: "32 word" where
  "VK_SUBPASS_EXTERNAL = - 1"

datatype VkFormat =
    VK_FORMAT_R8G8B8A8_UNORM
  | VK_FORMAT_D16_UNORM_S8_UINT
  | VK_FORMAT_D24_UNORM_S8_UINT
  | VK_FORMAT_D32_SFLOAT_S8_UINT
  | VK_FORMAT_OTHER nat

datatype VkAttachmentLoadOp =
    VK_ATTACHMENT_LOAD_OP_LOAD
  | VK_ATTACHMENT_LOAD_OP_CLEAR
  | VK_ATTACHMENT_LOAD_OP_DONT_CARE

datatype VkAttachmentStoreOp =
    VK_ATTACHMENT_STORE_OP_STORE
  | VK_ATTACHMENT_STORE_OP_DONT_CARE

record VkAttachmentDescription =
  att_format :: VkFormat
  loadOp :: VkAttachmentLoadOp
  storeOp :: VkAttachmentStoreOp
  stencilLoadOp :: VkAttachmentLoadOp
  stencilStoreOp :: VkAttachmentStoreOp
  initialLayout :: VkImageLayout
  finalLayout :: VkImageLayout

record VkSubpassDependency =
  srcSubpass :: "32 word"
  dstSubpass :: "32 word"
  srcStageMask :: "32 word"
  dstStageMask :: "32 word"
  srcAccessMask :: "32 word"
  dstAccessMask :: "32 word"

record VkRenderPassCreateInfo =
  pAttachments :: "VkAttachmentDescription list"
  colorAttachmentLayout :: VkImageLayout
  depthStencilAttachmentLayout :: VkImageLayout
  pDependencies :: "VkSubpassDependency list"

record VkImageMemoryBarrier =
  barrier_image :: nat
  oldLayout :: VkImageLayout
  newLayout :: VkImageLayout
  barrier_srcAccessMask :: "32 word"
  barrier_dstAccessMask :: "32 word"
  barrier_aspectMask :: "32 word"

text \<open>
  The images and framebuffers the steps refer to. The classes \<open>VKRImage\<close> and
  \<open>VKRFramebuffer\<close> are declared outside the files at hand; the fields are the ones
  the queue runner reads and writes.
\<close>

record VKRImage =
  image :: nat
  layout :: VkImageLayout
  format :: VkFormat

record VKRFramebuffer =
  framebuf :: nat
  fb_color :: VKRImage
  fb_depth :: VKRImage
  width :: int
  height :: int

text \<open>
  The key of the render pass cache, as it lies in memory: the three actions are one byte
  each and the layouts are aligned to four bytes, so one byte of padding follows the
  actions. No member function compares or hashes keys, and the map that holds them sees
  all sixteen bytes; two keys are the same key when they agree in the six members and
  in the padding byte.
\<close>

record RPKey =
  colorLoadAction :: VKRRenderPassAction
  depthLoadAction :: VKRRenderPassAction
  stencilLoadAction :: VKRRenderPassAction
  padding :: "8 word"
  prevColorLayout :: VkImageLayout
  prevDepthLayout :: VkImageLayout
  key_finalColorLayout :: VkImageLayout

text \<open>
  The calls recorded into the command buffer \<open>cmd\<close>, in order. The arguments kept are
  the ones the queue runner computes.
\<close>

datatype VkCall =
    CmdPipelineBarrier "32 word" "32 word" "VkImageMemoryBarrier list"
  | CmdBeginRenderPass nat nat int int nat
  | CmdEndRenderPass
  | CmdBindPipeline nat
  | CmdSetViewport bool nat
  | CmdSetScissor bool nat
  | CmdSetBlendConstants nat
  | CmdPushConstants nat
  | CmdSetStencilWriteMask "8 word"
  | CmdSetStencilCompareMask "8 word"
  | CmdSetStencilReference "8 word"
  | CmdDrawIndexed nat
  | CmdDraw nat
  | CmdClearAttachments nat
  | CmdCopyImage nat VkImageLayout nat VkImageLayout "32 word"
  | CmdBlitImage nat VkImageLayout nat VkImageLayout "32 word"
  | CmdCopyImageToBuffer nat VkImageLayout nat
  | CmdWriteTimestamp nat

text \<open>The deferred deletions queued with \<open>vulkan_->Delete()\<close>.\<close>

datatype DeleteRequest =
    QueueDeleteDeviceMemory nat
  | QueueDeleteBuffer nat
  | QueueDeleteRenderPass nat

datatype LogLine =
    ELOG_vkMapMemory_failed
  | ELOG_Unknown_format
  | ELOG_Unimpl_queue_command

text \<open>
  The device, as far as the queue runner depends on it: what the Vulkan calls that can
  fail return. \<open>vkCreateRenderPass\<close> gets the create info and the number of render
  passes created so far, and returns success and the new handle; \<open>vkCreateBuffer\<close> gets
  the size and the number of buffers created so far and returns the handle;
  \<open>vkAllocateMemory\<close> gets the allocation size and the number of allocations so far and
  returns success and the handle; \<open>MemoryTypeFromProperties\<close> tells whether a memory
  type with the required properties exists for the readback buffer.
  \<open>rotatedScissorNonNegative\<close> tells whether \<open>RotateRectToDisplay\<close> (outside the files at
  hand) leaves the origin of a scissor rectangle non-negative; \<open>uninitializedFormat\<close> is
  the value found in the \<open>format\<close> field that PerformReadbackImage leaves unset.
  \<open>keyPadding n\<close> is the byte found in the padding of the key that the overload of
  GetRenderPass with six arguments builds on the stack when \<open>n\<close> commands have been
  recorded: the initializer \<open>RPKey key{...}\<close> sets the six members and leaves that byte
  as it is.
\<close>

record Device =
  vkCreateRenderPass :: "VkRenderPassCreateInfo \<Rightarrow> nat \<Rightarrow> bool \<times> nat"
  vkCreateBuffer :: "64 word \<Rightarrow> nat \<Rightarrow> nat"
  bufferMemoryRequirementsSize :: "64 word \<Rightarrow> 64 word"
  MemoryTypeFromProperties :: "32 word \<Rightarrow> bool"
  vkAllocateMemory :: "64 word \<Rightarrow> nat \<Rightarrow> bool \<times> nat"
  vkMapMemory :: "nat \<Rightarrow> bool"
  driverVersion :: "32 word"
  preferredDepthStencilFormat :: VkFormat
  backbufferWidth :: int
  backbufferHeight :: int
  rotatedScissorNonNegative :: "nat \<Rightarrow> bool"
  uninitializedFormat :: VkFormat
  keyPadding :: "nat \<Rightarrow> 8 word"
  MAX_TIMESTAMP_QUERIES :: nat

text \<open>
  The state: the members of \<open>VulkanQueueRunner\<close>, the framebuffers by address, and what
  has been done to the outside (command buffer, objects created, deletions queued, log).

  Modelled from the spec: \<open>DenseHashMap\<close> (Common/Hashmaps.h) is outside the files at
  hand. It is a map from keys to handles; \<open>Get\<close> returns the null value
  \<open>VK_NULL_HANDLE\<close> for a key that is not present and \<open>Insert\<close> adds an entry
  (section 3 of the spec: the cache is an append-only map). Keys are compared as the
  bytes they are, which is equality of the record \<open>RPKey\<close> with its padding byte.
\<close>

record QueueRunner =
  renderPasses :: "RPKey \<rightharpoonup> nat"
  readbackMemory :: nat
  readbackBuffer :: nat
  readbackBufferSize :: "64 word"
  readbackBufferIsCoherent :: bool
  runner_hacksEnabled :: "32 word"
  backbuffer :: nat
  backbufferImage :: nat
  backbufferRenderPass :: nat
  framebuffers :: "fbptr \<Rightarrow> VKRFramebuffer"
  cmds :: "VkCall list"
  createdRenderPasses :: "(nat \<times> VkRenderPassCreateInfo) list"
  createdBuffers :: "(nat \<times> 64 word) list"
  destroyedBuffers :: "nat list"
  allocations :: "(nat \<times> 64 word) list"
  boundMemory :: "(nat \<times> nat) list"
  deleteQueue :: "DeleteRequest list"
  logged :: "LogLine list"

definition DenseHashMap_Get :: "(RPKey \<rightharpoonup> nat) \<Rightarrow> RPKey \<Rightarrow> nat" where
  "DenseHashMap_Get m key = (case m key of None \<Rightarrow> VK_NULL_HANDLE | Some v \<Rightarrow> v)"

definition DenseHashMap_Insert :: "RPKey \<Rightarrow> nat \<Rightarrow> (RPKey \<rightharpoonup> nat) \<Rightarrow> (RPKey \<rightharpoonup> nat)" where
  "DenseHashMap_Insert key v m = m(key \<mapsto> v)"

section \<open>The render pass cache (GetRenderPass)\<close>

definition load_op :: "VKRRenderPassAction \<Rightarrow> VkAttachmentLoadOp" where
  "load_op a =
     (case a of
        CLEAR \<Rightarrow> VK_ATTACHMENT_LOAD_OP_CLEAR
      | KEEP \<Rightarrow> VK_ATTACHMENT_LOAD_OP_LOAD
      | DONT_CARE \<Rightarrow> VK_ATTACHMENT_LOAD_OP_DONT_CARE)"

definition zero_dependency :: VkSubpassDependency where
  "zero_dependency = \<lparr>srcSubpass = 0, dstSubpass = 0, srcStageMask = 0, dstStageMask = 0,
                       srcAccessMask = 0, dstAccessMask = 0\<rparr>"

text \<open>The two \<open>switch\<close>es on the previous layouts: what they OR into \<open>deps[0]\<close>.\<close>

definition prev_color_dependency :: "VkImageLayout \<Rightarrow> VkSubpassDependency \<Rightarrow> VkSubpassDependency" where
  "prev_color_dependency l d =
     (case l of
        VK_IMAGE_LAYOUT_GENERAL \<Rightarrow>
          d\<lparr>srcAccessMask := srcAccessMask d OR VK_ACCESS_COLOR_ATTACHMENT_WRITE_BIT,
            srcStageMask := srcStageMask d OR VK_PIPELINE_STAGE_COLOR_ATTACHMENT_OUTPUT_BIT\<rparr>
      | VK_IMAGE_LAYOUT_SHADER_READ_ONLY_OPTIMAL \<Rightarrow>
          d\<lparr>srcAccessMask := srcAccessMask d OR VK_ACCESS_SHADER_READ_BIT,
            srcStageMask := srcStageMask d OR VK_PIPELINE_STAGE_FRAGMENT_SHADER_BIT\<rparr>
      | VK_IMAGE_LAYOUT_TRANSFER_DST_OPTIMAL \<Rightarrow>
          d\<lparr>srcAccessMask := srcAccessMask d OR VK_ACCESS_TRANSFER_WRITE_BIT,
            srcStageMask := srcStageMask d OR VK_PIPELINE_STAGE_TRANSFER_BIT\<rparr>
      | VK_IMAGE_LAYOUT_TRANSFER_SRC_OPTIMAL \<Rightarrow>
          d\<lparr>srcAccessMask := srcAccessMask d OR VK_ACCESS_TRANSFER_READ_BIT,
            srcStageMask := srcStageMask d OR VK_PIPELINE_STAGE_TRANSFER_BIT\<rparr>
      | _ \<Rightarrow> d)"

definition prev_color_expected :: "VkImageLayout \<Rightarrow> bool" where
  "prev_color_expected l =
     (l = VK_IMAGE_LAYOUT_UNDEFINED \<or> l = VK_IMAGE_LAYOUT_COLOR_ATTACHMENT_OPTIMAL \<or>
      l = VK_IMAGE_LAYOUT_GENERAL \<or> l = VK_IMAGE_LAYOUT_SHADER_READ_ONLY_OPTIMAL \<or>
      l = VK_IMAGE_LAYOUT_TRANSFER_DST_OPTIMAL \<or> l = VK_IMAGE_LAYOUT_TRANSFER_SRC_OPTIMAL)"

definition prev_depth_dependency :: "VkImageLayout \<Rightarrow> VkSubpassDependency \<Rightarrow> VkSubpassDependency" where
  "prev_depth_dependency l d =
     (case l of
        VK_IMAGE_LAYOUT_SHADER_READ_ONLY_OPTIMAL \<Rightarrow>
          d\<lparr>srcAccessMask := srcAccessMask d OR VK_ACCESS_SHADER_READ_BIT,
            srcStageMask := srcStageMask d OR VK_PIPELINE_STAGE_FRAGMENT_SHADER_BIT\<rparr>
      | VK_IMAGE_LAYOUT_TRANSFER_SRC_OPTIMAL \<Rightarrow>
          d\<lparr>srcAccessMask := srcAccessMask d OR VK_ACCESS_TRANSFER_READ_BIT,
            srcStageMask := srcStageMask d OR VK_PIPELINE_STAGE_TRANSFER_BIT\<rparr>
      | VK_IMAGE_LAYOUT_TRANSFER_DST_OPTIMAL \<Rightarrow>
          d\<lparr>srcAccessMask := srcAccessMask d OR VK_ACCESS_TRANSFER_WRITE_BIT,
            srcStageMask := srcStageMask d OR VK_PIPELINE_STAGE_TRANSFER_BIT\<rparr>
      | _ \<Rightarrow> d)"

definition prev_depth_expected :: "VkImageLayout \<Rightarrow> bool" where
  "prev_depth_expected l =
     (l = VK_IMAGE_LAYOUT_UNDEFINED \<or> l = VK_IMAGE_LAYOUT_DEPTH_STENCIL_ATTACHMENT_OPTIMAL \<or>
      l = VK_IMAGE_LAYOUT_SHADER_READ_ONLY_OPTIMAL \<or> l = VK_IMAGE_LAYOUT_TRANSFER_SRC_OPTIMAL \<or>
      l = VK_IMAGE_LAYOUT_TRANSFER_DST_OPTIMAL)"

text \<open>The \<open>switch\<close> on the final layout: what it assigns in the next free dependency.\<close>

definition final_color_dependency :: "VkImageLayout \<Rightarrow> VkSubpassDependency \<Rightarrow> VkSubpassDependency" where
  "final_color_dependency l d =
     (case l of
        VK_IMAGE_LAYOUT_SHADER_READ_ONLY_OPTIMAL \<Rightarrow>
          d\<lparr>dstAccessMask := VK_ACCESS_SHADER_READ_BIT,
            dstStageMask := VK_PIPELINE_STAGE_FRAGMENT_SHADER_BIT\<rparr>
      | VK_IMAGE_LAYOUT_TRANSFER_SRC_OPTIMAL \<Rightarrow>
          d\<lparr>dstAccessMask := VK_ACCESS_TRANSFER_READ_BIT,
            dstStageMask := VK_PIPELINE_STAGE_TRANSFER_BIT\<rparr>
      | VK_IMAGE_LAYOUT_TRANSFER_DST_OPTIMAL \<Rightarrow>
          d\<lparr>dstAccessMask := VK_ACCESS_TRANSFER_READ_BIT,
            dstStageMask := VK_PIPELINE_STAGE_TRANSFER_BIT\<rparr>
      | _ \<Rightarrow> d)"

definition final_color_expected :: "VkImageLayout \<Rightarrow> bool" where
  "final_color_expected l =
     (l = VK_IMAGE_LAYOUT_SHADER_READ_ONLY_OPTIMAL \<or> l = VK_IMAGE_LAYOUT_TRANSFER_SRC_OPTIMAL \<or>
      l = VK_IMAGE_LAYOUT_TRANSFER_DST_OPTIMAL \<or> l = VK_IMAGE_LAYOUT_UNDEFINED \<or>
      l = VK_IMAGE_LAYOUT_COLOR_ATTACHMENT_OPTIMAL)"

text \<open>The create info built from the key (lines 183-371).\<close>

definition render_pass_info :: "Device \<Rightarrow> RPKey \<Rightarrow> VkRenderPassCreateInfo" where
  "render_pass_info dev key =
     (let attachment0 =
            \<lparr>att_format = VK_FORMAT_R8G8B8A8_UNORM,
             loadOp = load_op (colorLoadAction key),
             storeOp = VK_ATTACHMENT_STORE_OP_STORE,
             stencilLoadOp = VK_ATTACHMENT_LOAD_OP_DONT_CARE,
             stencilStoreOp = VK_ATTACHMENT_STORE_OP_DONT_CARE,
             initialLayout = prevColorLayout key,
             finalLayout = key_finalColorLayout key\<rparr>;
          attachment1 =
            \<lparr>att_format = preferredDepthStencilFormat dev,
             loadOp = load_op (depthLoadAction key),
             storeOp = VK_ATTACHMENT_STORE_OP_STORE,
             stencilLoadOp = load_op (stencilLoadAction key),
             stencilStoreOp = VK_ATTACHMENT_STORE_OP_STORE,
             initialLayout = prevDepthLayout key,
             finalLayout = VK_IMAGE_LAYOUT_DEPTH_STENCIL_ATTACHMENT_OPTIMAL\<rparr>;
          dep0 = prev_depth_dependency (prevDepthLayout key)
                   (prev_color_dependency (prevColorLayout key) zero_dependency);
          deps1 = (if srcAccessMask dep0 \<noteq> 0
                   then [dep0\<lparr>srcSubpass := VK_SUBPASS_EXTERNAL, dstSubpass := 0,
                              dstStageMask := VK_PIPELINE_STAGE_COLOR_ATTACHMENT_OUTPUT_BIT OR
                                VK_PIPELINE_STAGE_EARLY_FRAGMENT_TESTS_BIT OR
                                VK_PIPELINE_STAGE_LATE_FRAGMENT_TESTS_BIT,
                              dstAccessMask := VK_ACCESS_DEPTH_STENCIL_ATTACHMENT_WRITE_BIT OR
                                VK_ACCESS_DEPTH_STENCIL_ATTACHMENT_READ_BIT OR
                                VK_ACCESS_COLOR_ATTACHMENT_READ_BIT OR
                                VK_ACCESS_COLOR_ATTACHMENT_WRITE_BIT\<rparr>]
                   else []);
          next_dep = final_color_dependency (key_finalColorLayout key)
                       (if srcAccessMask dep0 \<noteq> 0 then zero_dependency else dep0);
          deps2 = (if dstAccessMask next_dep \<noteq> 0
                   then deps1 @ [next_dep\<lparr>srcSubpass := 0, dstSubpass := VK_SUBPASS_EXTERNAL,
                              srcStageMask := VK_PIPELINE_STAGE_COLOR_ATTACHMENT_OUTPUT_BIT,
                              srcAccessMask := VK_ACCESS_COLOR_ATTACHMENT_WRITE_BIT\<rparr>]
                   else deps1)
      in \<lparr>pAttachments = [attachment0, attachment1],
          colorAttachmentLayout = VK_IMAGE_LAYOUT_COLOR_ATTACHMENT_OPTIMAL,
          depthStencilAttachmentLayout = VK_IMAGE_LAYOUT_DEPTH_STENCIL_ATTACHMENT_OPTIMAL,
          pDependencies = deps2\<rparr>)"

text \<open>
  \<open>GetRenderPass(const RPKey &key)\<close>: the lookup; on a miss the debug assertions of
  the three \<open>switch\<close>es, the creation, its two assertions and the insertion.
\<close>

definition GetRenderPass :: "BuildConfig \<Rightarrow> Device \<Rightarrow> RPKey \<Rightarrow> QueueRunner \<Rightarrow> fatal + (nat \<times> QueueRunner)" where
  "GetRenderPass b dev key st =
     (let pass = DenseHashMap_Get (renderPasses st) key
      in if pass \<noteq> VK_NULL_HANDLE then Inr (pass, st)
         else if DBG_ASSERTS b \<and> \<not> prev_color_expected (prevColorLayout key)
              then Inl DBG_ASSERT_UNEXPECTED_COLOR_LAYOUT
         else if DBG_ASSERTS b \<and> \<not> prev_depth_expected (prevDepthLayout key)
              then Inl DBG_ASSERT_UNEXPECTED_DEPTH_LAYOUT
         else if DBG_ASSERTS b \<and> \<not> final_color_expected (key_finalColorLayout key)
              then Inl DBG_ASSERT_UNEXPECTED_FINAL_LAYOUT
         else
           (let rp = render_pass_info dev key;
                (res, new_pass) = vkCreateRenderPass dev rp (length (createdRenderPasses st))
            in if \<not> res then Inl ASSERT_CREATE_RENDER_PASS
               else if new_pass = VK_NULL_HANDLE then Inl ASSERT_NULL_RENDER_PASS
               else Inr (new_pass,
                         st\<lparr>createdRenderPasses := createdRenderPasses st @ [(new_pass, rp)],
                            renderPasses := DenseHashMap_Insert key new_pass (renderPasses st)\<rparr>)))"

text \<open>
  The overload with six arguments (header lines 278-283): \<open>RPKey key{...}\<close> followed by
  \<open>GetRenderPass(key)\<close>. \<open>pad\<close> is the byte that lies in the padding of \<open>key\<close>.
\<close>

definition GetRenderPass_fields ::
  "BuildConfig \<Rightarrow> Device \<Rightarrow> 8 word \<Rightarrow> VKRRenderPassAction \<Rightarrow> VKRRenderPassAction \<Rightarrow>
   VKRRenderPassAction \<Rightarrow> VkImageLayout \<Rightarrow> VkImageLayout \<Rightarrow> VkImageLayout \<Rightarrow> QueueRunner \<Rightarrow>
   fatal + (nat \<times> QueueRunner)" where
  "GetRenderPass_fields b dev pad colorLoad depthLoad stencilLoad prevColor prevDepth finalColor st =
     GetRenderPass b dev
       \<lparr>colorLoadAction = colorLoad, depthLoadAction = depthLoad, stencilLoadAction = stencilLoad,
        padding = pad, prevColorLayout = prevColor, prevDepthLayout = prevDepth,
        key_finalColorLayout = finalColor\<rparr> st"

section \<open>Layout transitions\<close>

text \<open>
  The source is modelled as compiled without \<open>VULKAN_USE_GENERAL_LAYOUT_FOR_COLOR\<close> and
  \<open>VULKAN_USE_GENERAL_LAYOUT_FOR_DEPTH_STENCIL\<close>.
\<close>

definition bind_fatal :: "fatal + 'a \<Rightarrow> ('a \<Rightarrow> fatal + 'b) \<Rightarrow> fatal + 'b" where
  "bind_fatal m f = (case m of Inl e \<Rightarrow> Inl e | Inr x \<Rightarrow> f x)"

definition emit :: "VkCall \<Rightarrow> QueueRunner \<Rightarrow> QueueRunner" where
  "emit c st = st\<lparr>cmds := cmds st @ [c]\<rparr>"

definition is_depth_stencil_format :: "VkFormat \<Rightarrow> bool" where
  "is_depth_stencil_format f =
     (f = VK_FORMAT_D16_UNORM_S8_UINT \<or> f = VK_FORMAT_D24_UNORM_S8_UINT \<or>
      f = VK_FORMAT_D32_SFLOAT_S8_UINT)"

text \<open>
  \<open>SetupTransitionToTransferSrc(img, barrier, stage, aspect)\<close>: the image with its new
  layout tag, the barrier filled in, and the stage mask with the stage of the old layout
  added.
\<close>

definition SetupTransitionToTransferSrc ::
  "BuildConfig \<Rightarrow> VKRImage \<Rightarrow> 32 word \<Rightarrow> 32 word \<Rightarrow> fatal + (VKRImage \<times> VkImageMemoryBarrier \<times> 32 word)" where
  "SetupTransitionToTransferSrc b img stage aspect =
     (let (access, stage', supported) =
            (case layout img of
               VK_IMAGE_LAYOUT_COLOR_ATTACHMENT_OPTIMAL \<Rightarrow>
                 (VK_ACCESS_COLOR_ATTACHMENT_WRITE_BIT OR VK_ACCESS_COLOR_ATTACHMENT_READ_BIT,
                  stage OR VK_PIPELINE_STAGE_COLOR_ATTACHMENT_OUTPUT_BIT, True)
             | VK_IMAGE_LAYOUT_DEPTH_STENCIL_ATTACHMENT_OPTIMAL \<Rightarrow>
                 (VK_ACCESS_DEPTH_STENCIL_ATTACHMENT_WRITE_BIT,
                  stage OR VK_PIPELINE_STAGE_EARLY_FRAGMENT_TESTS_BIT OR
                    VK_PIPELINE_STAGE_LATE_FRAGMENT_TESTS_BIT, True)
             | VK_IMAGE_LAYOUT_TRANSFER_DST_OPTIMAL \<Rightarrow>
                 (VK_ACCESS_TRANSFER_WRITE_BIT, stage OR VK_PIPELINE_STAGE_TRANSFER_BIT, True)
             | VK_IMAGE_LAYOUT_SHADER_READ_ONLY_OPTIMAL \<Rightarrow>
                 (VK_ACCESS_SHADER_READ_BIT, stage OR VK_PIPELINE_STAGE_FRAGMENT_SHADER_BIT, True)
             | _ \<Rightarrow> (0, stage, False))
      in if DBG_ASSERTS b \<and> \<not> supported then Inl DBG_ASSERT_TRANSFER_SRC_UNSUPPORTED
         else Inr (img\<lparr>layout := VK_IMAGE_LAYOUT_TRANSFER_SRC_OPTIMAL\<rparr>,
                   \<lparr>barrier_image = image img, oldLayout = layout img,
                    newLayout = VK_IMAGE_LAYOUT_TRANSFER_SRC_OPTIMAL,
                    barrier_srcAccessMask = access,
                    barrier_dstAccessMask = VK_ACCESS_TRANSFER_READ_BIT,
                    barrier_aspectMask =
                      (if is_depth_stencil_format (format img)
                       then VK_IMAGE_ASPECT_DEPTH_BIT OR VK_IMAGE_ASPECT_STENCIL_BIT
                       else aspect)\<rparr>,
                   stage'))"

definition SetupTransitionToTransferDst ::
  "BuildConfig \<Rightarrow> VKRImage \<Rightarrow> 32 word \<Rightarrow> 32 word \<Rightarrow> fatal + (VKRImage \<times> VkImageMemoryBarrier \<times> 32 word)" where
  "SetupTransitionToTransferDst b img stage aspect =
     (let (access, stage', supported) =
            (case layout img of
               VK_IMAGE_LAYOUT_COLOR_ATTACHMENT_OPTIMAL \<Rightarrow>
                 (VK_ACCESS_COLOR_ATTACHMENT_WRITE_BIT,
                  stage OR VK_PIPELINE_STAGE_COLOR_ATTACHMENT_OUTPUT_BIT, True)
             | VK_IMAGE_LAYOUT_TRANSFER_SRC_OPTIMAL \<Rightarrow>
                 (VK_ACCESS_TRANSFER_READ_BIT, stage OR VK_PIPELINE_STAGE_TRANSFER_BIT, True)
             | VK_IMAGE_LAYOUT_DEPTH_STENCIL_ATTACHMENT_OPTIMAL \<Rightarrow>
                 (VK_ACCESS_DEPTH_STENCIL_ATTACHMENT_WRITE_BIT,
                  stage OR VK_PIPELINE_STAGE_EARLY_FRAGMENT_TESTS_BIT OR
                    VK_PIPELINE_STAGE_LATE_FRAGMENT_TESTS_BIT, True)
             | VK_IMAGE_LAYOUT_SHADER_READ_ONLY_OPTIMAL \<Rightarrow>
                 (VK_ACCESS_SHADER_READ_BIT, stage OR VK_PIPELINE_STAGE_FRAGMENT_SHADER_BIT, True)
             | _ \<Rightarrow> (0, stage, False))
      in if DBG_ASSERTS b \<and> \<not> supported then Inl DBG_ASSERT_TRANSFER_DST_UNSUPPORTED
         else Inr (img\<lparr>layout := VK_IMAGE_LAYOUT_TRANSFER_DST_OPTIMAL\<rparr>,
                   \<lparr>barrier_image = image img, oldLayout = layout img,
                    newLayout = VK_IMAGE_LAYOUT_TRANSFER_DST_OPTIMAL,
                    barrier_srcAccessMask = access,
                    barrier_dstAccessMask = VK_ACCESS_TRANSFER_WRITE_BIT,
                    barrier_aspectMask =
                      (if is_depth_stencil_format (format img)
                       then VK_IMAGE_ASPECT_DEPTH_BIT OR VK_IMAGE_ASPECT_STENCIL_BIT
                       else aspect)\<rparr>,
                   stage'))"

text \<open>
  The request as every caller writes it (PerformCopy, PerformBlit, PerformReadback):
  \<open>if (img.layout != L) SetupTransitionTo...(img, barriers[count++], stage, aspect)\<close>.
  The barrier is appended to the barriers collected so far.
\<close>

definition transition_to_transfer_src ::
  "BuildConfig \<Rightarrow> VKRImage \<Rightarrow> VkImageMemoryBarrier list \<Rightarrow> 32 word \<Rightarrow> 32 word \<Rightarrow>
   fatal + (VKRImage \<times> VkImageMemoryBarrier list \<times> 32 word)" where
  "transition_to_transfer_src b img barriers stage aspect =
     (if layout img \<noteq> VK_IMAGE_LAYOUT_TRANSFER_SRC_OPTIMAL
      then bind_fatal (SetupTransitionToTransferSrc b img stage aspect)
             (\<lambda>(img', barrier, stage'). Inr (img', barriers @ [barrier], stage'))
      else Inr (img, barriers, stage))"

definition transition_to_transfer_dst ::
  "BuildConfig \<Rightarrow> VKRImage \<Rightarrow> VkImageMemoryBarrier list \<Rightarrow> 32 word \<Rightarrow> 32 word \<Rightarrow>
   fatal + (VKRImage \<times> VkImageMemoryBarrier list \<times> 32 word)" where
  "transition_to_transfer_dst b img barriers stage aspect =
     (if layout img \<noteq> VK_IMAGE_LAYOUT_TRANSFER_DST_OPTIMAL
      then bind_fatal (SetupTransitionToTransferDst b img stage aspect)
             (\<lambda>(img', barrier, stage'). Inr (img', barriers @ [barrier], stage'))
      else Inr (img, barriers, stage))"

text \<open>
  \<open>TransitionImageLayout2\<close> is a helper outside the files at hand; it records one
  pipeline barrier with one image barrier made of its arguments.
\<close>

definition TransitionImageLayout2 ::
  "nat \<Rightarrow> 32 word \<Rightarrow> VkImageLayout \<Rightarrow> VkImageLayout \<Rightarrow> 32 word \<Rightarrow> 32 word \<Rightarrow> 32 word \<Rightarrow> 32 word \<Rightarrow>
   QueueRunner \<Rightarrow> QueueRunner" where
  "TransitionImageLayout2 img aspect old new srcStage dstStage srcAccess dstAccess st =
     emit (CmdPipelineBarrier srcStage dstStage
             [\<lparr>barrier_image = img, oldLayout = old, newLayout = new,
               barrier_srcAccessMask = srcAccess, barrier_dstAccessMask = dstAccess,
               barrier_aspectMask = aspect\<rparr>]) st"

definition set_color_image :: "fbptr \<Rightarrow> VKRImage \<Rightarrow> QueueRunner \<Rightarrow> QueueRunner" where
  "set_color_image p img st =
     st\<lparr>framebuffers := (framebuffers st)(p := (framebuffers st p)\<lparr>fb_color := img\<rparr>)\<rparr>"

definition set_depth_image :: "fbptr \<Rightarrow> VKRImage \<Rightarrow> QueueRunner \<Rightarrow> QueueRunner" where
  "set_depth_image p img st =
     st\<lparr>framebuffers := (framebuffers st)(p := (framebuffers st p)\<lparr>fb_depth := img\<rparr>)\<rparr>"

definition set_color_layout :: "fbptr \<Rightarrow> VkImageLayout \<Rightarrow> QueueRunner \<Rightarrow> QueueRunner" where
  "set_color_layout p l st =
     set_color_image p ((fb_color (framebuffers st p))\<lparr>layout := l\<rparr>) st"

definition set_depth_layout :: "fbptr \<Rightarrow> VkImageLayout \<Rightarrow> QueueRunner \<Rightarrow> QueueRunner" where
  "set_depth_layout p l st =
     set_depth_image p ((fb_depth (framebuffers st p))\<lparr>layout := l\<rparr>) st"

section \<open>The step executor\<close>

subsection \<open>PerformRenderPass\<close>

text \<open>One pre-transition of the first loop of PerformRenderPass.\<close>

definition pre_transition :: "TransitionRequest \<Rightarrow> QueueRunner \<Rightarrow> fatal + QueueRunner" where
  "pre_transition tr st =
     (let img = fb_color (framebuffers st (req_fb tr))
      in if layout img \<noteq> targetLayout tr then
           (let (srcAccess, srcStage, old_ok) =
                  (case layout img of
                     VK_IMAGE_LAYOUT_COLOR_ATTACHMENT_OPTIMAL \<Rightarrow>
                       (VK_ACCESS_COLOR_ATTACHMENT_WRITE_BIT OR VK_ACCESS_COLOR_ATTACHMENT_READ_BIT,
                        VK_PIPELINE_STAGE_COLOR_ATTACHMENT_OUTPUT_BIT, True)
                   | VK_IMAGE_LAYOUT_UNDEFINED \<Rightarrow>
                       (VK_ACCESS_COLOR_ATTACHMENT_WRITE_BIT OR VK_ACCESS_COLOR_ATTACHMENT_READ_BIT,
                        VK_PIPELINE_STAGE_COLOR_ATTACHMENT_OUTPUT_BIT, True)
                   | VK_IMAGE_LAYOUT_TRANSFER_DST_OPTIMAL \<Rightarrow>
                       (VK_ACCESS_TRANSFER_WRITE_BIT, VK_PIPELINE_STAGE_TRANSFER_BIT, True)
                   | VK_IMAGE_LAYOUT_TRANSFER_SRC_OPTIMAL \<Rightarrow>
                       (VK_ACCESS_TRANSFER_READ_BIT, VK_PIPELINE_STAGE_TRANSFER_BIT, True)
                   | _ \<Rightarrow> (0, 0, False))
            in if \<not> old_ok then Inl ASSERT_UNEXPECTED_OLD_LAYOUT
               else if targetLayout tr \<noteq> VK_IMAGE_LAYOUT_SHADER_READ_ONLY_OPTIMAL
               then Inl ASSERT_UNEXPECTED_NEW_LAYOUT
               else Inr (set_color_layout (req_fb tr) (targetLayout tr)
                          (emit (CmdPipelineBarrier srcStage VK_PIPELINE_STAGE_FRAGMENT_SHADER_BIT
                                   [\<lparr>barrier_image = image img, oldLayout = layout img,
                                     newLayout = targetLayout tr,
                                     barrier_srcAccessMask = srcAccess,
                                     barrier_dstAccessMask = VK_ACCESS_SHADER_READ_BIT,
                                     barrier_aspectMask = VK_IMAGE_ASPECT_COLOR_BIT\<rparr>]) st)))
         else Inr st)"

fun pre_transitions :: "TransitionRequest list \<Rightarrow> QueueRunner \<Rightarrow> fatal + QueueRunner" where
  "pre_transitions [] st = Inr st"
| "pre_transitions (tr # trs) st = bind_fatal (pre_transition tr st) (pre_transitions trs)"

definition maliBugWorkaround :: "Device \<Rightarrow> VKRStep \<Rightarrow> bool" where
  "maliBugWorkaround dev step =
     (numDraws (render step) = 0 \<and> color (render step) = CLEAR \<and>
      driverVersion dev = 0xaa9c4b29)"

definition PerformBindFramebufferAsRenderTarget ::
  "BuildConfig \<Rightarrow> Device \<Rightarrow> VKRStep \<Rightarrow> QueueRunner \<Rightarrow> fatal + QueueRunner" where
  "PerformBindFramebufferAsRenderTarget b dev step st =
     (if framebuffer (render step) \<noteq> nullptr then
        if DBG_ASSERTS b \<and> finalColorLayout (render step) = VK_IMAGE_LAYOUT_UNDEFINED
        then Inl DBG_ASSERT_FINAL_LAYOUT_UNDEFINED
        else
          (let p = framebuffer (render step);
               st1 = (if maliBugWorkaround dev step
                      then set_color_layout p VK_IMAGE_LAYOUT_GENERAL
                             (TransitionImageLayout2 (image (fb_color (framebuffers st p)))
                                VK_IMAGE_ASPECT_COLOR_BIT
                                (layout (fb_color (framebuffers st p))) VK_IMAGE_LAYOUT_GENERAL
                                VK_PIPELINE_STAGE_COLOR_ATTACHMENT_OUTPUT_BIT
                                VK_PIPELINE_STAGE_COLOR_ATTACHMENT_OUTPUT_BIT
                                (VK_ACCESS_COLOR_ATTACHMENT_READ_BIT OR VK_ACCESS_COLOR_ATTACHMENT_WRITE_BIT)
                                (VK_ACCESS_COLOR_ATTACHMENT_READ_BIT OR VK_ACCESS_COLOR_ATTACHMENT_WRITE_BIT)
                                st)
                      else st)
           in bind_fatal (GetRenderPass_fields b dev (keyPadding dev (length (cmds st1)))
                            (color (render step)) (depth (render step)) (stencil (render step))
                            (layout (fb_color (framebuffers st1 p)))
                            (layout (fb_depth (framebuffers st1 p)))
                            (finalColorLayout (render step)) st1)
                (\<lambda>(renderPass, st2).
                   (let st3 = set_depth_layout p VK_IMAGE_LAYOUT_DEPTH_STENCIL_ATTACHMENT_OPTIMAL
                                (set_color_layout p VK_IMAGE_LAYOUT_COLOR_ATTACHMENT_OPTIMAL st2);
                        n1 = (if color (render step) = CLEAR then 1 else 0);
                        numClearVals = (if depth (render step) = CLEAR \<or> stencil (render step) = CLEAR
                                        then 2 else n1)
                    in Inr (emit (CmdBeginRenderPass renderPass (framebuf (framebuffers st3 p))
                                    (width (framebuffers st3 p)) (height (framebuffers st3 p))
                                    numClearVals) st3))))
      else
        Inr (emit (CmdBeginRenderPass (backbufferRenderPass st) (backbuffer st)
                     (backbufferWidth dev) (backbufferHeight dev) 2) st))"

text \<open>
  The replay of the recorded commands. The tracking state is the last pipeline bound
  and the last stencil values set (\<open>- 1\<close>: none yet). A draw stands for the calls that
  bind its descriptor sets and buffers and the draw call itself.
\<close>

record ReplayState =
  lastPipeline :: nat
  lastStencilWriteMask :: int
  lastStencilCompareMask :: int
  lastStencilReference :: int

definition replay_start :: ReplayState where
  "replay_start = \<lparr>lastPipeline = VK_NULL_HANDLE, lastStencilWriteMask = - 1,
                    lastStencilCompareMask = - 1, lastStencilReference = - 1\<rparr>"

definition replay_stencil :: "VkRenderData \<Rightarrow> ReplayState \<times> QueueRunner \<Rightarrow> ReplayState \<times> QueueRunner" where
  "replay_stencil c s =
     (let (rs, st) = s;
          (rs1, st1) = (if lastStencilWriteMask rs \<noteq> uint (stencilWriteMask c)
                        then (rs\<lparr>lastStencilWriteMask := uint (stencilWriteMask c)\<rparr>,
                              emit (CmdSetStencilWriteMask (stencilWriteMask c)) st)
                        else (rs, st));
          (rs2, st2) = (if lastStencilCompareMask rs1 \<noteq> uint (stencilCompareMask c)
                        then (rs1\<lparr>lastStencilCompareMask := uint (stencilCompareMask c)\<rparr>,
                              emit (CmdSetStencilCompareMask (stencilCompareMask c)) st1)
                        else (rs1, st1))
      in if lastStencilReference rs2 \<noteq> uint (stencilRef c)
         then (rs2\<lparr>lastStencilReference := uint (stencilRef c)\<rparr>,
               emit (CmdSetStencilReference (stencilRef c)) st2)
         else (rs2, st2))"

definition replay_command ::
  "BuildConfig \<Rightarrow> Device \<Rightarrow> fbptr \<Rightarrow> VkRenderData \<Rightarrow> ReplayState \<times> QueueRunner \<Rightarrow>
   fatal + (ReplayState \<times> QueueRunner)" where
  "replay_command b dev p c s =
     (let (rs, st) = s
      in case cmd c of
           REMOVED \<Rightarrow> Inr (rs, st)
         | BIND_PIPELINE \<Rightarrow>
             if pipeline c \<noteq> lastPipeline rs
             then Inr (\<lparr>lastPipeline = pipeline c, lastStencilWriteMask = - 1,
                        lastStencilCompareMask = - 1, lastStencilReference = - 1\<rparr>,
                       emit (CmdBindPipeline (pipeline c)) st)
             else Inr (rs, st)
         | VIEWPORT \<Rightarrow> Inr (rs, emit (CmdSetViewport (p = nullptr) (payload c)) st)
         | SCISSOR \<Rightarrow>
             if p = nullptr \<and> DBG_ASSERTS b \<and> \<not> rotatedScissorNonNegative dev (payload c)
             then Inl DBG_ASSERT_SCISSOR
             else Inr (rs, emit (CmdSetScissor (p = nullptr) (payload c)) st)
         | BLEND \<Rightarrow> Inr (rs, emit (CmdSetBlendConstants (payload c)) st)
         | PUSH_CONSTANTS \<Rightarrow> Inr (rs, emit (CmdPushConstants (payload c)) st)
         | STENCIL \<Rightarrow> Inr (replay_stencil c (rs, st))
         | DRAW_INDEXED \<Rightarrow> Inr (rs, emit (CmdDrawIndexed (payload c)) st)
         | DRAW \<Rightarrow> Inr (rs, emit (CmdDraw (payload c)) st)
         | CLEAR_CMD \<Rightarrow>
             (let n1 = (if clearMask c AND VK_IMAGE_ASPECT_COLOR_BIT \<noteq> 0 then 1 else 0);
                  numAttachments =
                    (if clearMask c AND (VK_IMAGE_ASPECT_DEPTH_BIT OR VK_IMAGE_ASPECT_STENCIL_BIT) \<noteq> 0
                     then n1 + 1 else n1)
              in if numAttachments \<noteq> 0 then Inr (rs, emit (CmdClearAttachments numAttachments) st)
                 else Inr (rs, st))
         | NUM_RENDER_COMMANDS \<Rightarrow> Inr (rs, st\<lparr>logged := logged st @ [ELOG_Unimpl_queue_command]\<rparr>))"

fun replay_commands ::
  "BuildConfig \<Rightarrow> Device \<Rightarrow> fbptr \<Rightarrow> VkRenderData list \<Rightarrow> ReplayState \<times> QueueRunner \<Rightarrow>
   fatal + (ReplayState \<times> QueueRunner)" where
  "replay_commands b dev p [] s = Inr s"
| "replay_commands b dev p (c # cs) s =
     bind_fatal (replay_command b dev p c s) (replay_commands b dev p cs)"

definition empty_keep_pass :: "VKRStep \<Rightarrow> bool" where
  "empty_keep_pass step =
     (commands step = [] \<and> color (render step) = KEEP \<and> depth (render step) = KEEP \<and>
      stencil (render step) = KEEP)"

definition PerformRenderPass :: "BuildConfig \<Rightarrow> Device \<Rightarrow> VKRStep \<Rightarrow> QueueRunner \<Rightarrow> fatal + QueueRunner" where
  "PerformRenderPass b dev step st =
     bind_fatal (pre_transitions (preTransitions step) st)
       (\<lambda>st1.
          if empty_keep_pass step then Inr st1
          else
            (let p = framebuffer (render step);
                 st2 = (if p \<noteq> nullptr \<and>
                           layout (fb_color (framebuffers st1 p)) = VK_IMAGE_LAYOUT_COLOR_ATTACHMENT_OPTIMAL
                        then emit (CmdPipelineBarrier VK_PIPELINE_STAGE_COLOR_ATTACHMENT_OUTPUT_BIT
                                     VK_PIPELINE_STAGE_COLOR_ATTACHMENT_OUTPUT_BIT
                                     [\<lparr>barrier_image = image (fb_color (framebuffers st1 p)),
                                       oldLayout = VK_IMAGE_LAYOUT_COLOR_ATTACHMENT_OPTIMAL,
                                       newLayout = VK_IMAGE_LAYOUT_COLOR_ATTACHMENT_OPTIMAL,
                                       barrier_srcAccessMask = VK_ACCESS_COLOR_ATTACHMENT_WRITE_BIT,
                                       barrier_dstAccessMask = VK_ACCESS_COLOR_ATTACHMENT_WRITE_BIT OR
                                         VK_ACCESS_COLOR_ATTACHMENT_READ_BIT,
                                       barrier_aspectMask = VK_IMAGE_ASPECT_COLOR_BIT\<rparr>]) st1
                        else st1)
             in bind_fatal (PerformBindFramebufferAsRenderTarget b dev step st2)
                  (\<lambda>st3.
                     bind_fatal (replay_commands b dev p (commands step) (replay_start, st3))
                       (\<lambda>(rs, st4).
                          (let st5 = emit CmdEndRenderPass st4
                           in if p \<noteq> nullptr
                              then Inr (set_color_layout p (finalColorLayout (render step)) st5)
                              else Inr st5)))))"

subsection \<open>PerformCopy and PerformBlit\<close>

text \<open>
  The barrier part, which PerformCopy and PerformBlit both spell out: the transitions of
  the color images, then of the depth images, each under its guard, and the two
  \<open>vkCmdPipelineBarrier\<close> calls. Source and destination are addresses into the same
  store; they may be the same framebuffer.
\<close>

definition transfer_barriers ::
  "BuildConfig \<Rightarrow> fbptr \<Rightarrow> fbptr \<Rightarrow> 32 word \<Rightarrow> QueueRunner \<Rightarrow> fatal + QueueRunner" where
  "transfer_barriers b src dst aspectMask st =
     bind_fatal
       (if aspectMask AND VK_IMAGE_ASPECT_COLOR_BIT \<noteq> 0 then
          bind_fatal (transition_to_transfer_src b (fb_color (framebuffers st src)) [] 0
                        VK_IMAGE_ASPECT_COLOR_BIT)
            (\<lambda>(img, srcBarriers, srcStage).
               (let st1 = set_color_image src img st
                in bind_fatal (transition_to_transfer_dst b (fb_color (framebuffers st1 dst)) [] 0
                                 VK_IMAGE_ASPECT_COLOR_BIT)
                     (\<lambda>(img', dstBarriers, dstStage).
                        Inr (set_color_image dst img' st1, srcBarriers, srcStage, dstBarriers, dstStage))))
        else Inr (st, [], 0, [], 0))
       (\<lambda>(st2, srcBarriers, srcStage, dstBarriers, dstStage).
          bind_fatal
            (if aspectMask AND (VK_IMAGE_ASPECT_DEPTH_BIT OR VK_IMAGE_ASPECT_STENCIL_BIT) \<noteq> 0 then
               bind_fatal (transition_to_transfer_src b (fb_depth (framebuffers st2 src)) srcBarriers
                             srcStage (VK_IMAGE_ASPECT_DEPTH_BIT OR VK_IMAGE_ASPECT_STENCIL_BIT))
                 (\<lambda>(img, srcBarriers', srcStage').
                    (let st3 = set_depth_image src img st2
                     in bind_fatal (transition_to_transfer_dst b (fb_depth (framebuffers st3 dst))
                                      dstBarriers dstStage
                                      (VK_IMAGE_ASPECT_DEPTH_BIT OR VK_IMAGE_ASPECT_STENCIL_BIT))
                          (\<lambda>(img', dstBarriers', dstStage').
                             Inr (set_depth_image dst img' st3, srcBarriers', srcStage',
                                  dstBarriers', dstStage'))))
             else Inr (st2, srcBarriers, srcStage, dstBarriers, dstStage))
            (\<lambda>(st4, srcBarriers, srcStage, dstBarriers, dstStage).
               (let st5 = (if srcBarriers \<noteq> []
                           then emit (CmdPipelineBarrier srcStage VK_PIPELINE_STAGE_TRANSFER_BIT
                                        srcBarriers) st4
                           else st4);
                    st6 = (if dstBarriers \<noteq> []
                           then emit (CmdPipelineBarrier dstStage VK_PIPELINE_STAGE_TRANSFER_BIT
                                        dstBarriers) st5
                           else st5)
                in Inr st6)))"

definition depth_stencil_aspects :: "32 word \<Rightarrow> 32 word" where
  "depth_stencil_aspects aspectMask =
     (if aspectMask AND VK_IMAGE_ASPECT_DEPTH_BIT \<noteq> 0 then VK_IMAGE_ASPECT_DEPTH_BIT else 0) OR
     (if aspectMask AND VK_IMAGE_ASPECT_STENCIL_BIT \<noteq> 0 then VK_IMAGE_ASPECT_STENCIL_BIT else 0)"

definition PerformCopy :: "BuildConfig \<Rightarrow> VKRStep \<Rightarrow> QueueRunner \<Rightarrow> fatal + QueueRunner" where
  "PerformCopy b step st =
     (let src = copy_src (copy step); dst = copy_dst (copy step);
          aspectMask = copy_aspectMask (copy step)
      in bind_fatal (transfer_barriers b src dst aspectMask st)
           (\<lambda>st1.
              (let st2 = (if aspectMask AND VK_IMAGE_ASPECT_COLOR_BIT \<noteq> 0
                          then emit (CmdCopyImage
                                       (image (fb_color (framebuffers st1 src)))
                                       (layout (fb_color (framebuffers st1 src)))
                                       (image (fb_color (framebuffers st1 dst)))
                                       (layout (fb_color (framebuffers st1 dst)))
                                       VK_IMAGE_ASPECT_COLOR_BIT) st1
                          else st1);
                   st3 = (if aspectMask AND (VK_IMAGE_ASPECT_DEPTH_BIT OR VK_IMAGE_ASPECT_STENCIL_BIT) \<noteq> 0
                          then emit (CmdCopyImage
                                       (image (fb_depth (framebuffers st2 src)))
                                       (layout (fb_depth (framebuffers st2 src)))
                                       (image (fb_depth (framebuffers st2 dst)))
                                       (layout (fb_depth (framebuffers st2 dst)))
                                       (depth_stencil_aspects aspectMask)) st2
                          else st2)
               in Inr st3)))"

definition PerformBlit :: "BuildConfig \<Rightarrow> VKRStep \<Rightarrow> QueueRunner \<Rightarrow> fatal + QueueRunner" where
  "PerformBlit b step st =
     (let src = blit_src (blit step); dst = blit_dst (blit step);
          aspectMask = blit_aspectMask (blit step)
      in bind_fatal (transfer_barriers b src dst aspectMask st)
           (\<lambda>st1.
              (let st2 = (if aspectMask AND VK_IMAGE_ASPECT_COLOR_BIT \<noteq> 0
                          then emit (CmdBlitImage
                                       (image (fb_color (framebuffers st1 src)))
                                       (layout (fb_color (framebuffers st1 src)))
                                       (image (fb_color (framebuffers st1 dst)))
                                       (layout (fb_color (framebuffers st1 dst)))
                                       VK_IMAGE_ASPECT_COLOR_BIT) st1
                          else st1);
                   st3 = (if aspectMask AND (VK_IMAGE_ASPECT_DEPTH_BIT OR VK_IMAGE_ASPECT_STENCIL_BIT) \<noteq> 0
                          then emit (CmdBlitImage
                                       (image (fb_depth (framebuffers st2 src)))
                                       (layout (fb_depth (framebuffers st2 src)))
                                       (image (fb_depth (framebuffers st2 dst)))
                                       (layout (fb_depth (framebuffers st2 dst)))
                                       (depth_stencil_aspects aspectMask)) st2
                          else st2)
               in Inr st3)))"

subsection \<open>The readback buffer\<close>

definition desiredTypes :: "32 word list" where
  "desiredTypes =
     [VK_MEMORY_PROPERTY_HOST_VISIBLE_BIT OR VK_MEMORY_PROPERTY_HOST_COHERENT_BIT OR
        VK_MEMORY_PROPERTY_HOST_CACHED_BIT,
      VK_MEMORY_PROPERTY_HOST_VISIBLE_BIT OR VK_MEMORY_PROPERTY_HOST_CACHED_BIT,
      VK_MEMORY_PROPERTY_HOST_VISIBLE_BIT OR VK_MEMORY_PROPERTY_HOST_COHERENT_BIT]"

text \<open>The loop over \<open>desiredTypes\<close>: the first set of requirements the device can meet, or 0.\<close>

fun find_memory_type :: "Device \<Rightarrow> 32 word list \<Rightarrow> 32 word" where
  "find_memory_type dev [] = 0"
| "find_memory_type dev (typeReqs # rest) =
     (if MemoryTypeFromProperties dev typeReqs then typeReqs else find_memory_type dev rest)"

definition ResizeReadbackBuffer :: "Device \<Rightarrow> 64 word \<Rightarrow> QueueRunner \<Rightarrow> fatal + QueueRunner" where
  "ResizeReadbackBuffer dev requiredSize st =
     (if readbackBuffer st \<noteq> VK_NULL_HANDLE \<and> requiredSize \<le> readbackBufferSize st then Inr st
      else
        (let st1 = (if readbackMemory st \<noteq> VK_NULL_HANDLE
                    then st\<lparr>deleteQueue := deleteQueue st @ [QueueDeleteDeviceMemory (readbackMemory st)]\<rparr>
                    else st);
             st2 = (if readbackBuffer st1 \<noteq> VK_NULL_HANDLE
                    then st1\<lparr>deleteQueue := deleteQueue st1 @ [QueueDeleteBuffer (readbackBuffer st1)]\<rparr>
                    else st1);
             buffer = vkCreateBuffer dev requiredSize (length (createdBuffers st2));
             st3 = st2\<lparr>readbackBufferSize := requiredSize,
                       readbackBuffer := buffer,
                       createdBuffers := createdBuffers st2 @ [(buffer, requiredSize)]\<rparr>;
             allocationSize = bufferMemoryRequirementsSize dev requiredSize;
             successTypeReqs = find_memory_type dev desiredTypes
         in if successTypeReqs = 0 then Inl ASSERT_MEMORY_TYPE
            else
              (let st4 = st3\<lparr>readbackBufferIsCoherent :=
                               successTypeReqs AND VK_MEMORY_PROPERTY_HOST_COHERENT_BIT \<noteq> 0\<rparr>;
                   (res, memory) = vkAllocateMemory dev allocationSize (length (allocations st4))
               in if \<not> res
                  then Inr (st4\<lparr>readbackMemory := VK_NULL_HANDLE,
                                destroyedBuffers := destroyedBuffers st4 @ [buffer],
                                readbackBuffer := VK_NULL_HANDLE\<rparr>)
                  else Inr (st4\<lparr>readbackMemory := memory,
                                allocations := allocations st4 @ [(memory, allocationSize)],
                                boundMemory := boundMemory st4 @ [(buffer, memory)]\<rparr>))))"

text \<open>
  \<open>sizeof(uint32_t) * width * height\<close>: \<open>sizeof\<close> has type \<open>size_t\<close>, so the product is
  computed in \<open>size_t\<close>, here 64 bits wide, and wraps around at \<open>2 ^ 64\<close>.
\<close>

definition readback_size :: "VkRect2D \<Rightarrow> 64 word" where
  "readback_size r = 4 * ucast (extent_width r) * ucast (extent_height r)"

definition PerformReadback :: "BuildConfig \<Rightarrow> Device \<Rightarrow> VKRStep \<Rightarrow> QueueRunner \<Rightarrow> fatal + QueueRunner" where
  "PerformReadback b dev step st =
     bind_fatal (ResizeReadbackBuffer dev (readback_size (readback_srcRect (readback step))) st)
       (\<lambda>st1.
          (let src = readback_src (readback step); aspectMask = readback_aspectMask (readback step)
           in if src = nullptr then
                (let st2 = TransitionImageLayout2 (backbufferImage st1) VK_IMAGE_ASPECT_COLOR_BIT
                             VK_IMAGE_LAYOUT_PRESENT_SRC_KHR VK_IMAGE_LAYOUT_TRANSFER_SRC_OPTIMAL
                             VK_PIPELINE_STAGE_COLOR_ATTACHMENT_OUTPUT_BIT VK_PIPELINE_STAGE_TRANSFER_BIT
                             0 VK_ACCESS_TRANSFER_READ_BIT st1;
                     st3 = emit (CmdCopyImageToBuffer (backbufferImage st2)
                                   VK_IMAGE_LAYOUT_TRANSFER_SRC_OPTIMAL (readbackBuffer st2)) st2
                 in Inr (TransitionImageLayout2 (backbufferImage st3) VK_IMAGE_ASPECT_COLOR_BIT
                           VK_IMAGE_LAYOUT_TRANSFER_SRC_OPTIMAL VK_IMAGE_LAYOUT_PRESENT_SRC_KHR
                           VK_PIPELINE_STAGE_TRANSFER_BIT VK_PIPELINE_STAGE_ALL_COMMANDS_BIT
                           VK_ACCESS_TRANSFER_READ_BIT 0 st3))
              else if aspectMask AND VK_IMAGE_ASPECT_COLOR_BIT \<noteq> 0 then
                bind_fatal (transition_to_transfer_src b (fb_color (framebuffers st1 src)) [] 0 aspectMask)
                  (\<lambda>(img, barriers, stage).
                     (let st2 = set_color_image src img st1;
                          st3 = (if barriers \<noteq> []
                                 then emit (CmdPipelineBarrier stage VK_PIPELINE_STAGE_TRANSFER_BIT
                                              barriers) st2
                                 else st2)
                      in Inr (emit (CmdCopyImageToBuffer (image img) (layout img)
                                      (readbackBuffer st3)) st3)))
              else if aspectMask AND (VK_IMAGE_ASPECT_DEPTH_BIT OR VK_IMAGE_ASPECT_STENCIL_BIT) \<noteq> 0 then
                bind_fatal (transition_to_transfer_src b (fb_depth (framebuffers st1 src)) [] 0 aspectMask)
                  (\<lambda>(img, barriers, stage).
                     (let st2 = set_depth_image src img st1;
                          st3 = (if barriers \<noteq> []
                                 then emit (CmdPipelineBarrier stage VK_PIPELINE_STAGE_TRANSFER_BIT
                                              barriers) st2
                                 else st2)
                      in Inr (emit (CmdCopyImageToBuffer (image img) (layout img)
                                      (readbackBuffer st3)) st3)))
              else if DBG_ASSERTS b then Inl DBG_ASSERT_NO_ASPECT
              else Inr st1))"

definition PerformReadbackImage :: "BuildConfig \<Rightarrow> Device \<Rightarrow> VKRStep \<Rightarrow> QueueRunner \<Rightarrow> fatal + QueueRunner" where
  "PerformReadbackImage b dev step st =
     (let img = readback_image_image (readback_image step);
          srcImage = \<lparr>image = img, layout = VK_IMAGE_LAYOUT_SHADER_READ_ONLY_OPTIMAL,
                      format = uninitializedFormat dev\<rparr>
      in bind_fatal (SetupTransitionToTransferSrc b srcImage 0 VK_IMAGE_ASPECT_COLOR_BIT)
           (\<lambda>(srcImage', barrier, stage).
              (let st1 = emit (CmdPipelineBarrier stage VK_PIPELINE_STAGE_TRANSFER_BIT [barrier]) st
               in bind_fatal
                    (ResizeReadbackBuffer dev
                       (readback_size (readback_image_srcRect (readback_image step))) st1)
                    (\<lambda>st2.
                       (let st3 = emit (CmdCopyImageToBuffer img VK_IMAGE_LAYOUT_TRANSFER_SRC_OPTIMAL
                                          (readbackBuffer st2)) st2
                        in Inr (TransitionImageLayout2 img VK_IMAGE_ASPECT_COLOR_BIT
                                  VK_IMAGE_LAYOUT_TRANSFER_SRC_OPTIMAL
                                  VK_IMAGE_LAYOUT_SHADER_READ_ONLY_OPTIMAL
                                  VK_PIPELINE_STAGE_TRANSFER_BIT VK_PIPELINE_STAGE_FRAGMENT_SHADER_BIT
                                  VK_ACCESS_TRANSFER_READ_BIT VK_ACCESS_SHADER_READ_BIT st3))))))"

subsection \<open>RunSteps\<close>

definition perform_step :: "BuildConfig \<Rightarrow> Device \<Rightarrow> VKRStep \<Rightarrow> QueueRunner \<Rightarrow> fatal + QueueRunner" where
  "perform_step b dev step st =
     (case stepType step of
        RENDER \<Rightarrow> PerformRenderPass b dev step st
      | COPY \<Rightarrow> PerformCopy b step st
      | BLIT \<Rightarrow> PerformBlit b step st
      | READBACK \<Rightarrow> PerformReadback b dev step st
      | READBACK_IMAGE \<Rightarrow> PerformReadbackImage b dev step st
      | RENDER_SKIP \<Rightarrow> Inr st)"

text \<open>
  The execution loop. \<open>profile\<close> is \<open>None\<close> for a null profile context and otherwise
  the number of timestamp descriptions pushed so far.
\<close>

fun execute_steps ::
  "BuildConfig \<Rightarrow> Device \<Rightarrow> VKRStep list \<Rightarrow> nat option \<times> QueueRunner \<Rightarrow>
   fatal + (nat option \<times> QueueRunner)" where
  "execute_steps b dev [] s = Inr s"
| "execute_steps b dev (step # steps) s =
     (let (profile, st) = s
      in bind_fatal (perform_step b dev step st)
           (\<lambda>st1.
              execute_steps b dev steps
                (case profile of
                   None \<Rightarrow> (None, st1)
                 | Some n \<Rightarrow>
                     if n + 1 < MAX_TIMESTAMP_QUERIES dev
                     then (Some (n + 1), emit (CmdWriteTimestamp n) st1)
                     else (Some n, st1))))"

text \<open>
  RunSteps: the optimizer, then the execution loop. The loop that follows (lines
  478-482) deletes every pointer of the vector; the steps are not part of the state of
  the model, and a vector that holds a pointer twice does not get here: the optimizer
  has the outcome \<open>STEP_IN_TWO_SLOTS\<close> for it. The two timestamps of the profile context
  are left out.
\<close>

definition RunSteps ::
  "BuildConfig \<Rightarrow> Device \<Rightarrow> VKRStep list \<Rightarrow> nat option \<Rightarrow> QueueRunner \<Rightarrow>
   fatal + (nat option \<times> QueueRunner)" where
  "RunSteps b dev steps profile st =
     bind_fatal (optimize_steps b (runner_hacksEnabled st) steps)
       (\<lambda>steps'. execute_steps b dev steps' (profile, st))"

section \<open>Copying the readback buffer out (CopyReadbackBuffer)\<close>

text \<open>
  The enumeration \<open>Draw::DataFormat\<close> is declared outside the files at hand; the model
  names the three formats the function tests and keeps the others by number.
\<close>

datatype DataFormat =
    R8G8B8A8_UNORM
  | B8G8R8A8_UNORM
  | D32F
  | DataFormat_other nat

text \<open>
  The conversion routines and \<open>DataFormatSizeInBytes\<close> are outside the files at hand:
  each conversion gets the destination bytes, the mapped bytes, the stride, the width,
  the height and the other format, and returns the destination bytes.
\<close>

record Converters =
  DataFormatSizeInBytes :: "DataFormat \<Rightarrow> nat"
  ConvertFromRGBA8888 :: "8 word list \<Rightarrow> 8 word list \<Rightarrow> int \<Rightarrow> int \<Rightarrow> int \<Rightarrow> DataFormat \<Rightarrow> 8 word list"
  ConvertFromBGRA8888 :: "8 word list \<Rightarrow> 8 word list \<Rightarrow> int \<Rightarrow> int \<Rightarrow> int \<Rightarrow> DataFormat \<Rightarrow> 8 word list"
  ConvertToD32F :: "8 word list \<Rightarrow> 8 word list \<Rightarrow> int \<Rightarrow> int \<Rightarrow> int \<Rightarrow> DataFormat \<Rightarrow> 8 word list"

text \<open>
  The row loop of the same-format case: row \<open>y\<close> of \<open>width * size\<close> bytes goes from
  offset \<open>y * width * size\<close> of the mapped bytes to offset \<open>y * pixelStride * size\<close> of
  the destination. \<open>None\<close>: a row reaches outside one of the two buffers.
\<close>

fun copy_rows :: "nat \<Rightarrow> nat \<Rightarrow> nat \<Rightarrow> nat \<Rightarrow> 8 word list \<Rightarrow> 8 word list \<Rightarrow> 8 word list option" where
  "copy_rows 0 y rowBytes strideBytes src dst = Some dst"
| "copy_rows (Suc n) y rowBytes strideBytes src dst =
     (if y * rowBytes + rowBytes \<le> length src \<and> y * strideBytes + rowBytes \<le> length dst
      then copy_rows n (y + 1) rowBytes strideBytes src
             (take (y * strideBytes) dst @ take rowBytes (drop (y * rowBytes) src) @
              drop (y * strideBytes + rowBytes) dst)
      else None)"

datatype CopyResult =
    Returned "8 word list" QueueRunner
  | Aborted fatal QueueRunner
  | OutOfBounds

definition CopyReadbackBuffer ::
  "BuildConfig \<Rightarrow> Device \<Rightarrow> Converters \<Rightarrow> 8 word list \<Rightarrow> int \<Rightarrow> int \<Rightarrow> DataFormat \<Rightarrow> DataFormat \<Rightarrow>
   int \<Rightarrow> 8 word list \<Rightarrow> QueueRunner \<Rightarrow> CopyResult" where
  "CopyReadbackBuffer b dev conv mappedData w h srcFormat destFormat pixelStride pixels st =
     (if readbackMemory st = VK_NULL_HANDLE then Returned pixels st
      else if \<not> vkMapMemory dev (readbackMemory st)
      then Returned pixels (st\<lparr>logged := logged st @ [ELOG_vkMapMemory_failed]\<rparr>)
      else if srcFormat = R8G8B8A8_UNORM
      then Returned (ConvertFromRGBA8888 conv pixels mappedData pixelStride w h destFormat) st
      else if srcFormat = B8G8R8A8_UNORM
      then Returned (ConvertFromBGRA8888 conv pixels mappedData pixelStride w h destFormat) st
      else if srcFormat = destFormat
      then (if h \<le> 0 then Returned pixels st
            else if w < 0 \<or> pixelStride < 0 then OutOfBounds
            else (case copy_rows (nat h) 0 (nat w * DataFormatSizeInBytes conv srcFormat)
                         (nat pixelStride * DataFormatSizeInBytes conv srcFormat) mappedData pixels of
                    None \<Rightarrow> OutOfBounds
                  | Some pixels' \<Rightarrow> Returned pixels' st))
      else if destFormat = D32F
      then Returned (ConvertToD32F conv pixels mappedData pixelStride w h srcFormat) st
      else if \<not> NDEBUG b
      then Aborted ASSERT_UNKNOWN_FORMAT (st\<lparr>logged := logged st @ [ELOG_Unknown_format]\<rparr>)
      else Returned pixels (st\<lparr>logged := logged st @ [ELOG_Unknown_format]\<rparr>))"

section \<open>Example frames\<close>

text \<open>Concrete steps and frames, on which the theorems below are evaluated.\<close>

definition draw_command :: "nat \<Rightarrow> VkRenderData" where
  "draw_command n = \<lparr>cmd = DRAW, pipeline = 0, draw_count = 3, stencilWriteMask = 0,
                      stencilCompareMask = 0, stencilRef = 0, clearMask = 0, payload = n\<rparr>"

definition render_step :: "fbptr \<Rightarrow> int \<Rightarrow> VkRenderData list \<Rightarrow> VKRStep" where
  "render_step f n cs =
     (VKRStep_new RENDER)\<lparr>commands := cs,
        render := (render (VKRStep_new RENDER))\<lparr>framebuffer := f, numDraws := n\<rparr>\<rparr>"

definition copy_step :: "fbptr \<Rightarrow> fbptr \<Rightarrow> VKRStep" where
  "copy_step s d =
     (VKRStep_new COPY)\<lparr>copy := (copy (VKRStep_new COPY))\<lparr>copy_src := s, copy_dst := d\<rparr>\<rparr>"

definition with_dependency :: "fbptr \<Rightarrow> VKRStep \<Rightarrow> VKRStep" where
  "with_dependency f s = s\<lparr>dependencies := TinySet_insert f (dependencies s)\<rparr>"

definition frame1 :: "VKRStep list" where
  "frame1 = [render_step 1 2 [draw_command 1, draw_command 2],
             render_step 1 3 [draw_command 3, draw_command 4, draw_command 5],
             render_step 1 1 [draw_command 6]]"

text \<open>
  A Copy between two other framebuffers, recorded with framebuffer 1 in its dependency
  set, between two Render steps to framebuffer 1.
\<close>

definition frame2 :: "VKRStep list" where
  "frame2 = [render_step 1 1 [draw_command 1],
             with_dependency 1 (copy_step 2 3),
             render_step 1 1 [draw_command 2]]"

text \<open>
  Two Render steps to framebuffer 1, a Render step to framebuffer 2 that reads
  framebuffer 1, and a third Render step to framebuffer 1.
\<close>

definition frame3 :: "VKRStep list" where
  "frame3 = [render_step 1 1 [draw_command 1],
             render_step 1 1 [draw_command 2],
             with_dependency 1 (render_step 2 1 [draw_command 3]),
             render_step 1 1 [draw_command 4]]"





text \<open>
  Copy to framebuffer 5, Render to framebuffer 1 (one draw), Copy to framebuffer 5, Render
  to framebuffer 2 (one draw), Render to framebuffer 3 (two draws).
\<close>

definition frame6 :: "VKRStep list" where
  "frame6 = [copy_step 7 5,
             render_step 1 1 [draw_command 1],
             copy_step 8 5,
             render_step 2 1 [draw_command 2],
             render_step 3 2 [draw_command 3, draw_command 4]]"

definition blit_step :: "fbptr \<Rightarrow> fbptr \<Rightarrow> VKRStep" where
  "blit_step s d =
     (VKRStep_new BLIT)\<lparr>blit := (blit (VKRStep_new BLIT))\<lparr>blit_src := s, blit_dst := d\<rparr>\<rparr>"

text \<open>The same shape with a Blit inside the window.\<close>

definition frame7 :: "VKRStep list" where
  "frame7 = [copy_step 7 5,
             render_step 1 1 [draw_command 1],
             copy_step 8 5,
             blit_step 5 6,
             copy_step 9 5,
             render_step 1 2 [draw_command 2, draw_command 3]]"

text \<open>
  Three Render steps of one draw each, to three different framebuffers, with color
  actions don't-care, keep, don't-care, followed by two other Render steps.
\<close>

definition depal_step :: "fbptr \<Rightarrow> VKRRenderPassAction \<Rightarrow> VkRenderData list \<Rightarrow> VKRStep" where
  "depal_step f a cs = (render_step f 1 cs)\<lparr>render := (render (render_step f 1 cs))\<lparr>color := a\<rparr>\<rparr>"

definition frame9 :: "VKRStep list" where
  "frame9 = [depal_step 1 DONT_CARE [draw_command 1],
             depal_step 2 KEEP [draw_command 2],
             depal_step 3 DONT_CARE [draw_command 3],
             render_step 4 5 [draw_command 4],
             render_step 5 5 [draw_command 5]]"

text \<open>A frame in which no window starts like a pattern of the hacks.\<close>

definition frame10 :: "VKRStep list" where
  "frame10 = [render_step 1 3 [draw_command 1],
              copy_step 1 2,
              render_step 2 1 [draw_command 2],
              render_step 1 6 [draw_command 3],
              blit_step 2 3]"

text \<open>
  A queue runner as its constructor leaves it, over a given store of framebuffers; a
  store in which every framebuffer is freshly created (both images UNDEFINED); and a
  device on which every call succeeds.
\<close>

definition QueueRunner_new :: "(fbptr \<Rightarrow> VKRFramebuffer) \<Rightarrow> QueueRunner" where
  "QueueRunner_new fbs =
     \<lparr>renderPasses = Map.empty, readbackMemory = VK_NULL_HANDLE, readbackBuffer = VK_NULL_HANDLE,
      readbackBufferSize = 0, readbackBufferIsCoherent = False, runner_hacksEnabled = 0,
      backbuffer = VK_NULL_HANDLE, backbufferImage = VK_NULL_HANDLE,
      backbufferRenderPass = VK_NULL_HANDLE, framebuffers = fbs, cmds = [],
      createdRenderPasses = [], createdBuffers = [], destroyedBuffers = [], allocations = [],
      boundMemory = [], deleteQueue = [], logged = []\<rparr>"

definition example_framebuffer :: "fbptr \<Rightarrow> VKRFramebuffer" where
  "example_framebuffer p =
     \<lparr>framebuf = 100 + p,
      fb_color = \<lparr>image = 200 + p, layout = VK_IMAGE_LAYOUT_UNDEFINED,
                  format = VK_FORMAT_R8G8B8A8_UNORM\<rparr>,
      fb_depth = \<lparr>image = 300 + p, layout = VK_IMAGE_LAYOUT_UNDEFINED,
                  format = VK_FORMAT_D24_UNORM_S8_UINT\<rparr>,
      width = 480, height = 272\<rparr>"

definition example_device :: Device where
  "example_device =
     \<lparr>vkCreateRenderPass = (\<lambda>info n. (True, 1000 + n)),
      vkCreateBuffer = (\<lambda>size n. 2000 + n),
      bufferMemoryRequirementsSize = (\<lambda>size. size),
      MemoryTypeFromProperties = (\<lambda>typeReqs. typeReqs AND VK_MEMORY_PROPERTY_HOST_CACHED_BIT = 0),
      vkAllocateMemory = (\<lambda>size n. (True, 3000 + n)),
      vkMapMemory = (\<lambda>mem. True),
      driverVersion = 1,
      preferredDepthStencilFormat = VK_FORMAT_D24_UNORM_S8_UINT,
      backbufferWidth = 1920, backbufferHeight = 1080,
      rotatedScissorNonNegative = (\<lambda>r. True),
      uninitializedFormat = VK_FORMAT_R8G8B8A8_UNORM,
      keyPadding = (\<lambda>n. 0),
      MAX_TIMESTAMP_QUERIES = 128\<rparr>"

definition example_key :: RPKey where
  "example_key = \<lparr>colorLoadAction = CLEAR, depthLoadAction = CLEAR, stencilLoadAction = CLEAR,
                   padding = 0, prevColorLayout = VK_IMAGE_LAYOUT_SHADER_READ_ONLY_OPTIMAL,
                   prevDepthLayout = VK_IMAGE_LAYOUT_DEPTH_STENCIL_ATTACHMENT_OPTIMAL,
                   key_finalColorLayout = VK_IMAGE_LAYOUT_COLOR_ATTACHMENT_OPTIMAL\<rparr>"

text \<open>
  Two Render steps with the same actions to two fresh framebuffers, and a device on
  which the padding byte of the key differs from one call to the next.
\<close>

definition frame12 :: "VKRStep list" where
  "frame12 = [render_step 1 1 [draw_command 1], render_step 2 1 [draw_command 2]]"

definition stack_device :: Device where
  "stack_device = example_device\<lparr>keyPadding := (\<lambda>n. of_nat n)\<rparr>"

text \<open>The same six members with another byte in the padding.\<close>

definition example_key_padded :: RPKey where
  "example_key_padded = example_key\<lparr>padding := 1\<rparr>"

definition image_in :: "VkImageLayout \<Rightarrow> VKRImage" where
  "image_in l = \<lparr>image = 7, layout = l, format = VK_FORMAT_R8G8B8A8_UNORM\<rparr>"

text \<open>An empty Render step that keeps color, depth and stencil.\<close>

definition keep_step :: "fbptr \<Rightarrow> VKRStep" where
  "keep_step f =
     (VKRStep_new RENDER)\<lparr>render := (render (VKRStep_new RENDER))
        \<lparr>framebuffer := f, color := KEEP, depth := KEEP, stencil := KEEP,
         finalColorLayout := VK_IMAGE_LAYOUT_COLOR_ATTACHMENT_OPTIMAL\<rparr>\<rparr>"

definition final_layout_step :: "VkImageLayout \<Rightarrow> VKRStep \<Rightarrow> VKRStep" where
  "final_layout_step l s = s\<lparr>render := (render s)\<lparr>finalColorLayout := l\<rparr>\<rparr>"



text \<open>
  Stand-ins for the conversion routines (they leave the destination as it is), and a
  queue runner that owns a readback buffer with its memory.
\<close>

definition example_converters :: Converters where
  "example_converters =
     \<lparr>DataFormatSizeInBytes = (\<lambda>f. 4),
      ConvertFromRGBA8888 = (\<lambda>dst src stride w h f. dst),
      ConvertFromBGRA8888 = (\<lambda>dst src stride w h f. dst),
      ConvertToD32F = (\<lambda>dst src stride w h f. dst)\<rparr>"

definition with_readback_memory :: "QueueRunner \<Rightarrow> QueueRunner" where
  "with_readback_memory st = st\<lparr>readbackMemory := 3000, readbackBuffer := 2000,
                                 readbackBufferSize := 4\<rparr>"

section \<open>Verification: the generic merge pass\<close>

subsection \<open>Commands per framebuffer are preserved\<close>

lemma fb_commands_append:
  "fb_commands f (xs @ ys) = fb_commands f xs @ fb_commands f ys"
  by (simp add: fb_commands_def)

lemma fb_commands_Cons:
  "fb_commands f (s # xs) =
     (if stepType s = RENDER \<and> framebuffer (render s) = f then commands s else []) @ fb_commands f xs"
  by (simp add: fb_commands_def)

lemma fb_commands_Nil: "fb_commands f [] = []"
  by (simp add: fb_commands_def)

lemma fb_commands_none:
  "(\<And>s. s \<in> set xs \<Longrightarrow> \<not> (stepType s = RENDER \<and> framebuffer (render s) = f)) \<Longrightarrow>
   fb_commands f xs = []"
  by (induction xs) (auto simp: fb_commands_Cons fb_commands_Nil)

lemma split_two:
  assumes "i < j" "j < length (steps :: 'a list)"
  shows "steps = take i steps @ steps ! i # take (j - Suc i) (drop (Suc i) steps) @ steps ! j # drop (Suc j) steps"
proof -
  have a: "steps = take i steps @ steps ! i # drop (Suc i) steps"
    using assms by (simp add: id_take_nth_drop)
  have "j - Suc i < length (drop (Suc i) steps)" using assms by simp
  from id_take_nth_drop[OF this]
  have b: "drop (Suc i) steps = take (j - Suc i) (drop (Suc i) steps) @ steps ! j # drop (Suc j) steps"
    using assms by (simp add: Suc_leI)
  show ?thesis using a b by metis
qed

lemma merge_two:
  assumes ij: "i < j" and jl: "j < length steps"
    and ri: "stepType (steps ! i) = RENDER" "framebuffer (render (steps ! i)) = f"
    and rj: "stepType (steps ! j) = RENDER" "framebuffer (render (steps ! j)) = f"
    and between: "\<And>k. i < k \<Longrightarrow> k < j \<Longrightarrow>
        \<not> (stepType (steps ! k) = RENDER \<and> framebuffer (render (steps ! k)) = f)"
  shows "fb_commands g
           ((steps[i := (steps ! i)\<lparr>commands := commands (steps ! i) @ commands (steps ! j),
                                   preTransitions := p\<rparr>])
                  [j := (steps ! j)\<lparr>stepType := RENDER_SKIP\<rparr>])
         = fb_commands g steps"
proof -
  define xs where "xs = take i steps"
  define mid where "mid = take (j - Suc i) (drop (Suc i) steps)"
  define ys where "ys = drop (Suc j) steps"
  define a' where "a' = (steps ! i)\<lparr>commands := commands (steps ! i) @ commands (steps ! j),
                                   preTransitions := p\<rparr>"
  define b' where "b' = (steps ! j)\<lparr>stepType := RENDER_SKIP\<rparr>"
  have dec: "steps = xs @ steps ! i # mid @ steps ! j # ys"
    unfolding xs_def mid_def ys_def by (rule split_two[OF ij jl])
  have lx: "length xs = i" using ij jl by (simp add: xs_def)
  have lm: "length mid = j - Suc i" using ij jl by (simp add: mid_def)
  have mid_nth: "\<And>n. n < length mid \<Longrightarrow> mid ! n = steps ! (Suc i + n)"
    using ij jl by (simp add: mid_def)
  have mid_none: "fb_commands f mid = []"
  proof (rule fb_commands_none)
    fix s assume "s \<in> set mid"
    then obtain n where n: "n < length mid" "s = mid ! n" by (auto simp: in_set_conv_nth)
    then have "s = steps ! (Suc i + n)" using mid_nth by simp
    moreover have "i < Suc i + n" "Suc i + n < j" using n lm by auto
    ultimately show "\<not> (stepType s = RENDER \<and> framebuffer (render s) = f)"
      using between by blast
  qed
  have upd1: "steps[i := a'] = xs @ a' # mid @ steps ! j # ys"
    by (subst dec) (simp add: lx[symmetric])
  have "(xs @ a' # mid @ steps ! j # ys)[j := b'] = xs @ a' # mid @ b' # ys"
  proof -
    have "j = length (xs @ a' # mid)" using lx lm ij by simp
    then show ?thesis by (metis append.assoc append_Cons list_update_length)
  qed
  then have upd: "(steps[i := a'])[j := b'] = xs @ a' # mid @ b' # ys"
    using upd1 by simp
  have "fb_commands g (xs @ a' # mid @ b' # ys) = fb_commands g (xs @ steps ! i # mid @ steps ! j # ys)"
    using ri rj mid_none
    by (cases "g = f") (auto simp: fb_commands_append fb_commands_Cons a'_def b'_def)
  then show ?thesis using upd dec unfolding a'_def b'_def by simp
qed

lemma merge_scan_fb_commands:
  "i < j \<Longrightarrow> i < length steps \<Longrightarrow>
   stepType (steps ! i) = RENDER \<Longrightarrow> framebuffer (render (steps ! i)) = fb \<Longrightarrow>
   (\<And>k. i < k \<Longrightarrow> k < j \<Longrightarrow>
      \<not> (stepType (steps ! k) = RENDER \<and> framebuffer (render (steps ! k)) = fb)) \<Longrightarrow>
   fb_commands g (merge_scan fb i t j steps) = fb_commands g steps"
proof (induction fb i t j steps rule: merge_scan.induct)
  case (1 fb i t j steps)
  note ij = \<open>i < j\<close> and il = \<open>i < length steps\<close>
    and ri = \<open>stepType (steps ! i) = RENDER\<close> \<open>framebuffer (render (steps ! i)) = fb\<close>
    and between = "1.prems"(5)
  show ?case
  proof (cases "j < length steps")
    case False
    then show ?thesis by (subst merge_scan.simps) simp
  next
    case jl: True
    have other: "fb_commands g (merge_scan fb i t' (j + 1) steps) = fb_commands g steps"
      if ih: "\<And>k. \<lbrakk>i < j + 1; i < length steps; stepType (steps ! i) = RENDER;
                 framebuffer (render (steps ! i)) = fb;
                 \<And>k. i < k \<Longrightarrow> k < j + 1 \<Longrightarrow>
                   \<not> (stepType (steps ! k) = RENDER \<and> framebuffer (render (steps ! k)) = fb)\<rbrakk>
               \<Longrightarrow> fb_commands g (merge_scan fb i t' (j + 1) steps) = fb_commands g steps"
        and nj: "\<not> (stepType (steps ! j) = RENDER \<and> framebuffer (render (steps ! j)) = fb)"
      for t'
    proof (rule ih)
      show "i < j + 1" using ij by simp
      show "i < length steps" by (rule il)
      show "stepType (steps ! i) = RENDER" "framebuffer (render (steps ! i)) = fb" by (rule ri)+
      fix k assume "i < k" "k < j + 1"
      then show "\<not> (stepType (steps ! k) = RENDER \<and> framebuffer (render (steps ! k)) = fb)"
        using between nj by (cases "k = j") auto
    qed
    show ?thesis
    proof (cases "stepType (steps ! j)")
      case RENDER
      show ?thesis
      proof (cases "TinySet_contains (dependencies (steps ! j)) fb \<or>
                    TinySet_contains_set (dependencies (steps ! j)) t")
        case True
        then show ?thesis using jl RENDER by (subst merge_scan.simps) auto
      next
        case nostop: False
        show ?thesis
        proof (cases "framebuffer (render (steps ! j)) = fb")
          case same: True
          define steps' where "steps' = (steps[i := (steps ! i)
                           \<lparr>commands := commands (steps ! i) @ commands (steps ! j),
                            preTransitions := preTransitions (steps ! i) @ preTransitions (steps ! j)\<rparr>])
                        [j := (steps ! j)\<lparr>stepType := RENDER_SKIP\<rparr>]"
          have eq: "merge_scan fb i t j steps = merge_scan fb i t (j + 1) steps'"
            using jl RENDER nostop same by (subst merge_scan.simps) (simp add: steps'_def)
          have m2: "fb_commands g steps' = fb_commands g steps"
            unfolding steps'_def using ij jl ri RENDER same between
            by (intro merge_two) auto
          have nd: "\<not> TinySet_contains (dependencies (steps ! j)) fb"
              "\<not> TinySet_contains_set (dependencies (steps ! j)) t"
            using nostop by simp_all
          have nn: "\<not> framebuffer (render (steps ! j)) \<noteq> fb" using same by simp
          note ih = "1.IH"(1)[OF jl RENDER nd, unfolded if_P[OF same] if_not_P[OF nn],
                              folded steps'_def]
          have "fb_commands g (merge_scan fb i t (j + 1) steps') = fb_commands g steps'"
          proof (rule ih)
            show "i < j + 1" using ij by simp
            show "i < length steps'" using il by (simp add: steps'_def)
            show "stepType (steps' ! i) = RENDER" using ij il jl ri by (simp add: steps'_def)
            show "framebuffer (render (steps' ! i)) = fb" using ij il jl ri by (simp add: steps'_def)
            fix k assume k: "i < k" "k < j + 1"
            show "\<not> (stepType (steps' ! k) = RENDER \<and> framebuffer (render (steps' ! k)) = fb)"
            proof (cases "k = j")
              case True then show ?thesis using jl ij by (simp add: steps'_def)
            next
              case False
              then have "steps' ! k = steps ! k" using k by (simp add: steps'_def)
              then show ?thesis using between k False by auto
            qed
          qed
          then show ?thesis using eq m2 by simp
        next
          case diff: False
          have eq: "merge_scan fb i t j steps =
                    merge_scan fb i (TinySet_insert (framebuffer (render (steps ! j))) t) (j + 1) steps"
            using jl RENDER nostop diff by (subst merge_scan.simps) simp
          show ?thesis unfolding eq
            by (rule other) (use "1.IH"(1)[OF jl RENDER] nostop diff in auto)
        qed
      qed
    next
      case RENDER_SKIP
      have eq: "merge_scan fb i t j steps = merge_scan fb i t (j + 1) steps"
        using jl RENDER_SKIP by (subst merge_scan.simps) simp
      show ?thesis unfolding eq
        by (rule other) (use "1.IH"(2)[OF jl RENDER_SKIP] RENDER_SKIP in auto)
    next
      case COPY
      show ?thesis
      proof (cases "copy_src (copy (steps ! j)) = fb \<or> copy_dst (copy (steps ! j)) = fb")
        case True
        then show ?thesis using jl COPY by (subst merge_scan.simps) auto
      next
        case False
        have eq: "merge_scan fb i t j steps =
                  merge_scan fb i (TinySet_insert (copy_dst (copy (steps ! j))) t) (j + 1) steps"
          using jl COPY False by (subst merge_scan.simps) simp
        show ?thesis unfolding eq
          by (rule other) (use "1.IH"(3)[OF jl COPY] COPY False in auto)
      qed
    next
      case BLIT
      show ?thesis
      proof (cases "blit_src (blit (steps ! j)) = fb \<or> blit_dst (blit (steps ! j)) = fb")
        case True
        then show ?thesis using jl BLIT by (subst merge_scan.simps) auto
      next
        case False
        have eq: "merge_scan fb i t j steps =
                  merge_scan fb i (TinySet_insert (blit_dst (blit (steps ! j))) t) (j + 1) steps"
          using jl BLIT False by (subst merge_scan.simps) simp
        show ?thesis unfolding eq
          by (rule other) (use "1.IH"(4)[OF jl BLIT] BLIT False in auto)
      qed
    next
      case READBACK
      show ?thesis
      proof (cases "readback_src (readback (steps ! j)) = fb")
        case True
        then show ?thesis using jl READBACK by (subst merge_scan.simps) auto
      next
        case False
        have eq: "merge_scan fb i t j steps = merge_scan fb i t (j + 1) steps"
          using jl READBACK False by (subst merge_scan.simps) simp
        show ?thesis unfolding eq
          by (rule other) (use "1.IH"(5)[OF jl READBACK] READBACK False in auto)
      qed
    next
      case READBACK_IMAGE
      have eq: "merge_scan fb i t j steps = merge_scan fb i t (j + 1) steps"
        using jl READBACK_IMAGE by (subst merge_scan.simps) simp
      show ?thesis unfolding eq
        by (rule other) (use "1.IH"(6)[OF jl READBACK_IMAGE] READBACK_IMAGE in auto)
    qed
  qed
qed

lemma merge_loop_fb_commands:
  "fb_commands g (merge_loop counts i steps) = fb_commands g steps"
proof (induction counts i steps rule: merge_loop.induct)
  case (1 counts i steps)
  show ?case
  proof (cases "i < length steps")
    case False
    then show ?thesis by (subst merge_loop.simps) simp
  next
    case True
    define steps' where "steps' =
          (if stepType (steps ! i) = RENDER \<and> counts (framebuffer (render (steps ! i))) > 1
           then merge_scan (framebuffer (render (steps ! i))) i TinySet_empty (i + 1) steps
           else steps)"
    have "fb_commands g steps' = fb_commands g steps"
      unfolding steps'_def using True by (auto intro!: merge_scan_fb_commands)
    moreover have "merge_loop counts i steps = merge_loop counts (i + 1) steps'"
      using True by (subst merge_loop.simps) (simp add: steps'_def)
    moreover have "fb_commands g (merge_loop counts (i + 1) steps') = fb_commands g steps'"
      using "1.IH"[OF True] by (simp add: steps'_def)
    ultimately show ?thesis by simp
  qed
qed

subsection \<open>One iteration of the scan, and where it stops\<close>

definition merge_blocker :: "fbptr \<Rightarrow> VKRStep \<Rightarrow> bool" where
  "merge_blocker f s =
     ((stepType s = RENDER \<and> TinySet_contains (dependencies s) f) \<or>
      (stepType s = COPY \<and> (copy_src (copy s) = f \<or> copy_dst (copy s) = f)) \<or>
      (stepType s = BLIT \<and> (blit_src (blit s) = f \<or> blit_dst (blit s) = f)) \<or>
      (stepType s = READBACK \<and> readback_src (readback s) = f))"

definition scan_step :: "fbptr \<Rightarrow> nat \<Rightarrow> TinySet \<Rightarrow> nat \<Rightarrow> VKRStep list \<Rightarrow> (TinySet \<times> VKRStep list) option" where
  "scan_step f i t j steps =
     (case stepType (steps ! j) of
        RENDER \<Rightarrow>
          if TinySet_contains (dependencies (steps ! j)) f then None
          else if TinySet_contains_set (dependencies (steps ! j)) t then None
          else Some
            (if framebuffer (render (steps ! j)) \<noteq> f
             then TinySet_insert (framebuffer (render (steps ! j))) t else t,
             if framebuffer (render (steps ! j)) = f
             then (steps[i := (steps ! i)
                      \<lparr>commands := commands (steps ! i) @ commands (steps ! j),
                       preTransitions := preTransitions (steps ! i) @ preTransitions (steps ! j)\<rparr>])
                   [j := (steps ! j)\<lparr>stepType := RENDER_SKIP\<rparr>]
             else steps)
      | COPY \<Rightarrow>
          if copy_src (copy (steps ! j)) = f \<or> copy_dst (copy (steps ! j)) = f then None
          else Some (TinySet_insert (copy_dst (copy (steps ! j))) t, steps)
      | BLIT \<Rightarrow>
          if blit_src (blit (steps ! j)) = f \<or> blit_dst (blit (steps ! j)) = f then None
          else Some (TinySet_insert (blit_dst (blit (steps ! j))) t, steps)
      | READBACK \<Rightarrow>
          if readback_src (readback (steps ! j)) = f then None else Some (t, steps)
      | RENDER_SKIP \<Rightarrow> Some (t, steps)
      | READBACK_IMAGE \<Rightarrow> Some (t, steps))"

lemma merge_scan_unfold:
  "merge_scan f i t j steps =
     (if j < length steps then
        (case scan_step f i t j steps of
           None \<Rightarrow> steps
         | Some (t', steps') \<Rightarrow> merge_scan f i t' (j + 1) steps')
      else steps)"
  by (subst merge_scan.simps) (simp add: scan_step_def split: VKRStepType.splits)

lemma scan_step_blocker:
  "merge_blocker f (steps ! j) \<Longrightarrow> scan_step f i t j steps = None"
  by (auto simp: merge_blocker_def scan_step_def split: VKRStepType.splits)

lemma scan_step_take:
  assumes "i < j" "j < k" "k \<le> length steps"
  shows "scan_step f i t j (take k steps) =
         map_option (\<lambda>(t', steps'). (t', take k steps')) (scan_step f i t j steps)"
  using assms by (simp add: scan_step_def take_update_swap split: VKRStepType.splits)

lemma scan_step_beyond:
  assumes "scan_step f i t j steps = Some (t', steps')" "i < j" "j < k"
  shows "drop k steps' = drop k steps" and "length steps' = length steps"
  using assms by (auto simp: scan_step_def split: VKRStepType.splits if_splits)

lemma merge_scan_stops:
  "i < j \<Longrightarrow> j \<le> k \<Longrightarrow> k < length steps \<Longrightarrow> merge_blocker f (steps ! k) \<Longrightarrow>
   merge_scan f i t j steps = merge_scan f i t j (take k steps) @ drop k steps"
proof (induction "k - j" arbitrary: j t steps)
  case 0
  then have jk: "j = k" by simp
  have "merge_scan f i t j steps = steps"
    using 0 jk by (subst merge_scan_unfold) (simp add: scan_step_blocker)
  moreover have "merge_scan f i t j (take k steps) = take k steps"
    using jk "0.prems" by (subst merge_scan_unfold) simp
  ultimately show ?case by simp
next
  case (Suc n)
  then have jk: "j < k" by simp
  have jl: "j < length steps" "j < length (take k steps)" using jk Suc.prems by simp_all
  show ?case
  proof (cases "scan_step f i t j steps")
    case None
    then have "scan_step f i t j (take k steps) = None"
      using scan_step_take[of i j k steps f t] Suc.prems jk by simp
    then have "merge_scan f i t j (take k steps) = take k steps"
      using jl by (subst merge_scan_unfold) simp
    moreover have "merge_scan f i t j steps = steps"
      using None jl by (subst merge_scan_unfold) simp
    ultimately show ?thesis by simp
  next
    case (Some p)
    obtain t' steps' where p: "p = (t', steps')" by (cases p)
    have st: "scan_step f i t j (take k steps) = Some (t', take k steps')"
      using scan_step_take[of i j k steps f t] Suc.prems jk Some p by simp
    have bey: "drop k steps' = drop k steps" "length steps' = length steps"
      using scan_step_beyond[OF Some[unfolded p] \<open>i < j\<close> jk] by simp_all
    have "steps' ! k = steps ! k"
      using bey Suc.prems by (metis hd_drop_conv_nth)
    then have bl: "merge_blocker f (steps' ! k)" using Suc.prems by simp
    have ih: "merge_scan f i t' (j + 1) steps' = merge_scan f i t' (j + 1) (take k steps') @ drop k steps'"
      using Suc.hyps(1)[of "j + 1" steps' t'] Suc.hyps(2) Suc.prems jk bey bl by simp
    have l: "merge_scan f i t j steps = merge_scan f i t' (j + 1) steps'"
      using Some p jl by (subst merge_scan_unfold) simp
    have r: "merge_scan f i t j (take k steps) = merge_scan f i t' (j + 1) (take k steps')"
      using st jl by (subst merge_scan_unfold) simp
    show ?thesis using ih l r bey by simp
  qed
qed

subsection \<open>What the pass may change in a step\<close>

text \<open>
  \<open>merge_rel s t\<close>: step \<open>t\<close> is step \<open>s\<close> with commands and pre-transitions
  appended at the end and nothing else changed, except that a RENDER step may have become
  RENDER_SKIP.
\<close>

definition merge_rel :: "VKRStep \<Rightarrow> VKRStep \<Rightarrow> bool" where
  "merge_rel s t =
     (prefix (commands s) (commands t) \<and> prefix (preTransitions s) (preTransitions t) \<and>
      dependencies t = dependencies s \<and> render t = render s \<and> copy t = copy s \<and>
      blit t = blit s \<and> readback t = readback s \<and> readback_image t = readback_image s \<and>
      (stepType t = stepType s \<or> (stepType s = RENDER \<and> stepType t = RENDER_SKIP)))"

lemma merge_rel_refl: "merge_rel s s"
  by (simp add: merge_rel_def)

lemma merge_rel_trans: "merge_rel a b \<Longrightarrow> merge_rel b c \<Longrightarrow> merge_rel a c"
  unfolding merge_rel_def by (auto intro: prefix_order.trans)

lemma all2_merge_rel_refl: "list_all2 merge_rel xs xs"
  by (simp add: list_all2_refl merge_rel_refl)

lemma all2_merge_rel_trans:
  "list_all2 merge_rel xs ys \<Longrightarrow> list_all2 merge_rel ys zs \<Longrightarrow> list_all2 merge_rel xs zs"
  by (rule list_all2_trans[of merge_rel merge_rel merge_rel]) (auto intro: merge_rel_trans)

lemma scan_step_rel:
  assumes "scan_step f i t j steps = Some (t', steps')" "i < j" "j < length steps"
  shows "list_all2 merge_rel steps steps'"
proof -
  have "steps' = steps \<or>
        (stepType (steps ! j) = RENDER \<and>
         steps' = (steps[i := (steps ! i)
                      \<lparr>commands := commands (steps ! i) @ commands (steps ! j),
                       preTransitions := preTransitions (steps ! i) @ preTransitions (steps ! j)\<rparr>])
                   [j := (steps ! j)\<lparr>stepType := RENDER_SKIP\<rparr>])"
    using assms(1) by (auto simp: scan_step_def split: VKRStepType.splits if_splits)
  then show ?thesis
  proof
    assume "steps' = steps" then show ?thesis by (simp add: all2_merge_rel_refl)
  next
    assume a: "stepType (steps ! j) = RENDER \<and>
         steps' = (steps[i := (steps ! i)
                      \<lparr>commands := commands (steps ! i) @ commands (steps ! j),
                       preTransitions := preTransitions (steps ! i) @ preTransitions (steps ! j)\<rparr>])
                   [j := (steps ! j)\<lparr>stepType := RENDER_SKIP\<rparr>]"
    show ?thesis
      unfolding list_all2_conv_all_nth
    proof (intro conjI allI impI)
      show "length steps = length steps'" using a by simp
      fix k assume k: "k < length steps"
      show "merge_rel (steps ! k) (steps' ! k)"
        using a k assms(2,3)
        by (cases "k = j"; cases "k = i") (auto simp: merge_rel_def)
    qed
  qed
qed

lemma merge_scan_rel:
  "i < j \<Longrightarrow> list_all2 merge_rel steps (merge_scan f i t j steps)"
proof (induction "length steps - j" arbitrary: j t steps)
  case 0
  then show ?case by (subst merge_scan_unfold) (simp add: all2_merge_rel_refl)
next
  case (Suc n)
  then have jl: "j < length steps" by simp
  show ?case
  proof (cases "scan_step f i t j steps")
    case None
    then show ?thesis using jl by (subst merge_scan_unfold) (simp add: all2_merge_rel_refl)
  next
    case (Some p)
    obtain t' steps' where p: "p = (t', steps')" by (cases p)
    have r: "list_all2 merge_rel steps steps'"
      using scan_step_rel[OF Some[unfolded p] \<open>i < j\<close> jl] .
    then have len: "length steps' = length steps" by (simp add: list_all2_lengthD)
    have "list_all2 merge_rel steps' (merge_scan f i t' (j + 1) steps')"
      using Suc.hyps(1)[of steps' "j + 1" t'] Suc.hyps(2) Suc.prems len by simp
    moreover have "merge_scan f i t j steps = merge_scan f i t' (j + 1) steps'"
      using Some p jl by (subst merge_scan_unfold) simp
    ultimately show ?thesis using r all2_merge_rel_trans by simp
  qed
qed

lemma merge_loop_rel:
  "list_all2 merge_rel steps (merge_loop counts i steps)"
proof (induction counts i steps rule: merge_loop.induct)
  case (1 counts i steps)
  show ?case
  proof (cases "i < length steps")
    case False
    then show ?thesis by (subst merge_loop.simps) (simp add: all2_merge_rel_refl)
  next
    case True
    define steps' where "steps' =
          (if stepType (steps ! i) = RENDER \<and> counts (framebuffer (render (steps ! i))) > 1
           then merge_scan (framebuffer (render (steps ! i))) i TinySet_empty (i + 1) steps
           else steps)"
    have "list_all2 merge_rel steps steps'"
      unfolding steps'_def by (simp add: all2_merge_rel_refl merge_scan_rel)
    moreover have "merge_loop counts i steps = merge_loop counts (i + 1) steps'"
      using True by (subst merge_loop.simps) (simp add: steps'_def)
    moreover have "list_all2 merge_rel steps' (merge_loop counts (i + 1) steps')"
      using "1.IH"[OF True] by (simp add: steps'_def)
    ultimately show ?thesis using all2_merge_rel_trans by simp
  qed
qed

subsection \<open>The claims about the merge pass\<close>

text \<open>
  C1. For every step list and every framebuffer, the commands recorded for the Render
  steps that target the framebuffer, read in step order, are the same list before and
  after ApplyRenderPassMerge (so the same multiset in the same relative order); and the
  pass changes a step only by appending commands and pre-transitions to it or by turning
  a RENDER step into RENDER_SKIP.
\<close>

theorem merge_preserves_fb_commands:
  "fb_commands f (ApplyRenderPassMerge steps) = fb_commands f steps \<and>
   list_all2 merge_rel steps (ApplyRenderPassMerge steps)"
  by (simp add: ApplyRenderPassMerge_def merge_loop_fb_commands merge_loop_rel)

theorem merge_preserves_fb_commands_witness:
  "fb_commands 1 (ApplyRenderPassMerge frame1) = fb_commands 1 frame1 \<and>
   list_all2 merge_rel frame1 (ApplyRenderPassMerge frame1) \<and>
   map stepType (ApplyRenderPassMerge frame1) = [RENDER, RENDER_SKIP, RENDER_SKIP] \<and>
   map payload (commands (ApplyRenderPassMerge frame1 ! 0)) = [1, 2, 3, 4, 5, 6]"
proof -
  have "map stepType (ApplyRenderPassMerge frame1) = [RENDER, RENDER_SKIP, RENDER_SKIP]"
    by code_simp
  moreover have "map payload (commands (ApplyRenderPassMerge frame1 ! 0)) = [1, 2, 3, 4, 5, 6]"
    by code_simp
  ultimately show ?thesis
    using merge_preserves_fb_commands[of 1 frame1] by simp
qed

text \<open>
  C2, as stated, fails: the scan tests the dependency set of Render steps only. In
  \<open>frame2\<close> the Copy step at index 1 has framebuffer 1 in its dependency set (and
  neither reads nor writes it), and the Render step at index 2 is still absorbed into the
  Render step at index 0 across it.
\<close>

theorem merge_crosses_copy_with_dependency:
  "stepType (frame2 ! 1) = COPY \<and>
   TinySet_contains (dependencies (frame2 ! 1)) 1 \<and>
   stepType (ApplyRenderPassMerge frame2 ! 2) = RENDER_SKIP \<and>
   commands (ApplyRenderPassMerge frame2 ! 0) = commands (frame2 ! 0) @ commands (frame2 ! 2)"
  by code_simp

text \<open>
  C2, amended. A blocker for framebuffer \<open>f\<close> is a Render step whose dependency set
  contains \<open>f\<close>, a Copy or Blit step whose source or destination is \<open>f\<close>, or a
  Readback step whose source is \<open>f\<close>. When the step at index \<open>k\<close> is a blocker, the
  scan for \<open>f\<close> from head \<open>i\<close> does exactly what it does on the list cut off before
  \<open>k\<close>, and leaves the steps from \<open>k\<close> on as they are: nothing at or beyond the
  blocker is absorbed.
\<close>

theorem merge_scan_stops_at_blocker:
  assumes "i < j" and "j \<le> k" and "k < length steps" and "merge_blocker f (steps ! k)"
  shows "merge_scan f i t j steps = merge_scan f i t j (take k steps) @ drop k steps"
  using assms by (rule merge_scan_stops)

theorem merge_scan_stops_at_blocker_witness:
  "(0::nat) < 1 \<and> (1::nat) \<le> 2 \<and> 2 < length frame3 \<and> merge_blocker 1 (frame3 ! 2) \<and>
   merge_scan 1 0 TinySet_empty 1 frame3 =
     merge_scan 1 0 TinySet_empty 1 (take 2 frame3) @ drop 2 frame3 \<and>
   map stepType (ApplyRenderPassMerge frame3) = [RENDER, RENDER_SKIP, RENDER, RENDER]"
proof -
  have h: "(0::nat) < 1" "(1::nat) \<le> 2" "2 < length frame3" "merge_blocker 1 (frame3 ! 2)"
    by code_simp+
  have "map stepType (ApplyRenderPassMerge frame3) = [RENDER, RENDER_SKIP, RENDER, RENDER]"
    by code_simp
  then show ?thesis
    using h merge_scan_stops_at_blocker[OF h, of TinySet_empty] by simp
qed

section \<open>Verification: pushing down empty clear passes\<close>

subsection \<open>The scan\<close>


lemma clear_folded_framebuffer [simp]:
  "framebuffer (clear_folded rj r) = framebuffer r"
  "numDraws (clear_folded rj r) = numDraws r"
  "numReads (clear_folded rj r) = numReads r"
  "finalColorLayout (clear_folded rj r) = finalColorLayout r"
  "color (clear_folded rj r) = CLEAR"
  "depth (clear_folded rj r) = CLEAR"
  "stencil (clear_folded rj r) = CLEAR"
  by (simp_all add: clear_folded_def Let_def)












subsection \<open>The whole loop\<close>










subsection \<open>The claim about the fold\<close>




section \<open>Verification: the queue hacks\<close>

subsection \<open>Without a trigger the loops change nothing\<close>

lemma mgs_copy_loop_no_trigger:
  "(\<And>k. i \<le> k \<Longrightarrow> k + 3 < length steps \<Longrightarrow>
      \<not> (mgs_copy_head steps k \<and> mgs_copy_scan steps k k \<noteq> - 1)) \<Longrightarrow>
   mgs_copy_loop b steps i = Inr steps"
proof (induction b steps i rule: mgs_copy_loop.induct)
  case (1 b steps i)
  show ?case
  proof (cases "i + 3 < length steps")
    case False
    then show ?thesis by (subst mgs_copy_loop.simps) simp
  next
    case True
    have nt: "\<not> (mgs_copy_head steps i \<and> mgs_copy_scan steps i i \<noteq> - 1)"
      using "1.prems"[of i] True by simp
    have "mgs_copy_loop b steps i = mgs_copy_loop b steps (i + 1)"
      using True nt by (subst mgs_copy_loop.simps) auto
    moreover have "mgs_copy_loop b steps (i + 1) = Inr steps"
    proof (cases "mgs_copy_head steps i")
      case False
      show ?thesis by (rule "1.IH"(1)[OF True False]) (use "1.prems" in auto)
    next
      case h: True
      then have "\<not> mgs_copy_scan steps i i \<noteq> - 1" using nt by simp
      from "1.IH"(2)[OF True _ this] h show ?thesis using "1.prems" by auto
    qed
    ultimately show ?thesis by simp
  qed
qed

lemma mgs_depal_loop_no_head:
  "(\<And>k. i \<le> k \<Longrightarrow> k + 3 < length steps \<Longrightarrow> \<not> mgs_depal_head steps k) \<Longrightarrow>
   mgs_depal_loop steps i = steps"
proof (induction steps i rule: mgs_depal_loop.induct)
  case (1 steps i)
  show ?case
  proof (cases "i + 3 < length steps")
    case False
    then show ?thesis by (subst mgs_depal_loop.simps) simp
  next
    case True
    have nh: "\<not> mgs_depal_head steps i" using "1.prems"[of i] True by simp
    have "mgs_depal_loop steps i = mgs_depal_loop steps (i + 1)"
      using True nh by (subst mgs_depal_loop.simps) simp
    moreover have "mgs_depal_loop steps (i + 1) = steps"
      by (rule "1.IH"(1)[OF True nh]) (use "1.prems" in auto)
    ultimately show ?thesis by simp
  qed
qed

lemma sonic_loop_no_trigger:
  "(\<And>k. i \<le> k \<Longrightarrow> k + 4 < length steps \<Longrightarrow>
      \<not> (sonic_head steps k \<and> sonic_scan steps k k \<noteq> - 1)) \<Longrightarrow>
   sonic_loop steps i = steps"
proof (induction steps i rule: sonic_loop.induct)
  case (1 steps i)
  show ?case
  proof (cases "i + 4 < length steps")
    case False
    then show ?thesis by (subst sonic_loop.simps) simp
  next
    case True
    have nt: "\<not> (sonic_head steps i \<and> sonic_scan steps i i \<noteq> - 1)"
      using "1.prems"[of i] True by simp
    have "sonic_loop steps i = sonic_loop steps (i + 1)"
      using True nt by (subst sonic_loop.simps) auto
    moreover have "sonic_loop steps (i + 1) = steps"
    proof (cases "sonic_head steps i")
      case False
      show ?thesis by (rule "1.IH"(1)[OF True False]) (use "1.prems" in auto)
    next
      case h: True
      then have "\<not> sonic_scan steps i i \<noteq> - 1" using nt by simp
      from "1.IH"(2)[OF True _ this] h show ?thesis using "1.prems" by auto
    qed
    ultimately show ?thesis by simp
  qed
qed

subsection \<open>The vector of pointers and the list of steps\<close>

text \<open>
  The steps that the pointers of \<open>mgs_copy_slots\<close> point to, before any of them is
  written to, are the list that the two write-back loops leave in the model.
\<close>

lemma write_back_map:
  "map f (write_back k ps xs) = write_back k (map f ps) (map f xs)"
  by (induction ps arbitrary: k xs) (simp_all add: map_update)

lemma window_values:
  assumes "lst < length steps"
  shows "map ((!) steps) (filter (\<lambda>n. P (steps ! n)) [i ..< lst + 1]) =
         filter P (take (lst + 1 - i) (drop i steps))"
proof -
  have "[i ..< lst + 1] = take (lst + 1 - i) (drop i [0 ..< length steps])"
    using assms by (cases "i \<le> lst") simp_all
  then have "map ((!) steps) [i ..< lst + 1] =
             take (lst + 1 - i) (drop i (map ((!) steps) [0 ..< length steps]))"
    by (simp only: take_map drop_map)
  then have "map ((!) steps) [i ..< lst + 1] = take (lst + 1 - i) (drop i steps)"
    by (simp only: map_nth)
  then have "filter P (map ((!) steps) [i ..< lst + 1]) =
             filter P (take (lst + 1 - i) (drop i steps))"
    by (rule arg_cong)
  then show ?thesis by (simp only: filter_map comp_def)
qed

lemma mgs_copy_slots_values:
  assumes "lst < length steps"
  shows "map ((!) steps) (mgs_copy_slots steps i lst) =
         write_back
           (i + length (filter (\<lambda>s. stepType s = COPY) (take (lst + 1 - i) (drop i steps))))
           (filter (\<lambda>s. stepType s = RENDER) (take (lst + 1 - i) (drop i steps)))
           (write_back i (filter (\<lambda>s. stepType s = COPY) (take (lst + 1 - i) (drop i steps)))
              steps)"
proof -
  note c = window_values[OF assms, of "\<lambda>s. stepType s = COPY" i]
  note r = window_values[OF assms, of "\<lambda>s. stepType s = RENDER" i]
  have l: "length (filter (\<lambda>n. stepType (steps ! n) = COPY) [i ..< lst + 1]) =
           length (filter (\<lambda>s. stepType s = COPY) (take (lst + 1 - i) (drop i steps)))"
    using c by (metis length_map)
  show ?thesis
    unfolding mgs_copy_slots_def Let_def
    by (simp only: write_back_map c r l map_nth)
qed

subsection \<open>What the rewrites do on windows that only start like the pattern\<close>

text \<open>
  In \<open>frame7\<close> the window found by the copy/render scan holds a Blit step. The
  write-back covers the copies and renders only: the pointer to the Blit (index 3) is
  overwritten and the pointer to the last Copy (index 4) stands in the vector twice.
\<close>

lemma mgs_window_with_blit:
  "map stepType frame7 = [COPY, RENDER, COPY, BLIT, COPY, RENDER] \<and>
   mgs_copy_scan frame7 0 0 = 4 \<and>
   mgs_copy_slots frame7 0 4 = [0, 2, 4, 1, 4, 5] \<and>
   ApplyMGSHack debug_build frame7 = Inl STEP_IN_TWO_SLOTS"
  by code_simp

text \<open>
  In \<open>frame9\<close> the depal scan ends after the second step; the third step, a Render to
  framebuffer 3, is combined into the first one, a Render to framebuffer 1.
\<close>

lemma mgs_depal_combines_next_step:
  "(case ApplyMGSHack debug_build frame9 of
      Inl e \<Rightarrow> False
    | Inr out \<Rightarrow>
        map stepType out = [RENDER, RENDER, RENDER_SKIP, RENDER, RENDER] \<and>
        map (\<lambda>s. map payload (commands s)) out = [[1, 3], [2], [3], [4], [5]]) \<and>
   map (\<lambda>s. framebuffer (render s)) frame9 = [1, 2, 3, 4, 5]"
  by code_simp

subsection \<open>The claim about the hacks\<close>

text \<open>
  C7, as stated, fails: a window that only partly matches is rewritten. In \<open>frame6\<close>
  the two one-draw Render steps between the copies target framebuffers 1 and 2, so the
  window is not a run against a single target; ApplyMGSHack still moves the copies to
  the front and combines the two Render steps, after which the draw recorded for
  framebuffer 2 stands in the Render step to framebuffer 1.
\<close>

theorem mgs_rewrites_partial_match:
  "framebuffer (render (frame6 ! 1)) = 1 \<and> framebuffer (render (frame6 ! 3)) = 2 \<and>
   fb_commands 1 frame6 = [draw_command 1] \<and> fb_commands 2 frame6 = [draw_command 2] \<and>
   (case ApplyMGSHack debug_build frame6 of
      Inl e \<Rightarrow> False
    | Inr out \<Rightarrow>
        map stepType out = [COPY, COPY, RENDER, RENDER_SKIP, RENDER] \<and>
        fb_commands 1 out = [draw_command 1, draw_command 2] \<and>
        fb_commands 2 out = [])"
  by code_simp

text \<open>
  C7, amended. ApplyMGSHack runs only when bit 1 of the hack mask is set and
  ApplySonicHack only when bit 2 is set. ApplyMGSHack returns the steps unchanged unless
  some index starts its copy/render head (Copy, Render with one draw, Copy to the same
  destination) with a terminating step found by the scan, or starts its depal head (three
  Render steps with one draw each and color actions don't-care, keep, don't-care).
  ApplySonicHack returns the steps unchanged unless some index starts its head (four
  Render steps with 3, 1, 6 and 1 draws, the first and third to one framebuffer, the
  second and fourth to one framebuffer) with a terminating step found by the scan.
\<close>

theorem hacks_gated_and_need_trigger:
  "(hacksEnabled AND QUEUE_HACK_MGS2_ACID = 0 \<longrightarrow>
      apply_hacks b hacksEnabled steps =
        Inr (let steps2 = (if hacksEnabled AND QUEUE_HACK_SONIC \<noteq> 0
                           then ApplySonicHack steps else steps)
             in if hacksEnabled AND QUEUE_HACK_RENDERPASS_MERGE \<noteq> 0
                then ApplyRenderPassMerge steps2 else steps2)) \<and>
   (hacksEnabled AND QUEUE_HACK_SONIC = 0 \<longrightarrow>
      apply_hacks b hacksEnabled steps =
        (case (if hacksEnabled AND QUEUE_HACK_MGS2_ACID \<noteq> 0 then ApplyMGSHack b steps
               else Inr steps) of
           Inl e \<Rightarrow> Inl e
         | Inr steps1 \<Rightarrow>
             Inr (if hacksEnabled AND QUEUE_HACK_RENDERPASS_MERGE \<noteq> 0
                  then ApplyRenderPassMerge steps1 else steps1))) \<and>
   ((\<forall>i. i + 3 < length steps \<longrightarrow>
        \<not> (mgs_copy_head steps i \<and> mgs_copy_scan steps i i \<noteq> - 1) \<and>
        \<not> mgs_depal_head steps i) \<longrightarrow>
      ApplyMGSHack b steps = Inr steps) \<and>
   ((\<forall>i. i + 4 < length steps \<longrightarrow>
        \<not> (sonic_head steps i \<and> sonic_scan steps i i \<noteq> - 1)) \<longrightarrow>
      ApplySonicHack steps = steps)"
proof (intro conjI impI)
  assume "hacksEnabled AND QUEUE_HACK_MGS2_ACID = 0"
  then show "apply_hacks b hacksEnabled steps =
        Inr (let steps2 = (if hacksEnabled AND QUEUE_HACK_SONIC \<noteq> 0
                           then ApplySonicHack steps else steps)
             in if hacksEnabled AND QUEUE_HACK_RENDERPASS_MERGE \<noteq> 0
                then ApplyRenderPassMerge steps2 else steps2)"
    by (cases "hacksEnabled = 0") (auto simp: apply_hacks_def Let_def split: sum.splits)
next
  assume "hacksEnabled AND QUEUE_HACK_SONIC = 0"
  then show "apply_hacks b hacksEnabled steps =
        (case (if hacksEnabled AND QUEUE_HACK_MGS2_ACID \<noteq> 0 then ApplyMGSHack b steps
               else Inr steps) of
           Inl e \<Rightarrow> Inl e
         | Inr steps1 \<Rightarrow>
             Inr (if hacksEnabled AND QUEUE_HACK_RENDERPASS_MERGE \<noteq> 0
                  then ApplyRenderPassMerge steps1 else steps1))"
    by (cases "hacksEnabled = 0") (auto simp: apply_hacks_def Let_def split: sum.splits)
next
  assume a: "\<forall>i. i + 3 < length steps \<longrightarrow>
        \<not> (mgs_copy_head steps i \<and> mgs_copy_scan steps i i \<noteq> - 1) \<and>
        \<not> mgs_depal_head steps i"
  have "mgs_copy_loop b steps 0 = Inr steps"
    by (rule mgs_copy_loop_no_trigger) (use a in blast)
  moreover have "mgs_depal_loop steps 0 = steps"
    by (rule mgs_depal_loop_no_head) (use a in blast)
  ultimately show "ApplyMGSHack b steps = Inr steps"
    by (simp add: ApplyMGSHack_def)
next
  assume a: "\<forall>i. i + 4 < length steps \<longrightarrow>
        \<not> (sonic_head steps i \<and> sonic_scan steps i i \<noteq> - 1)"
  show "ApplySonicHack steps = steps"
    unfolding ApplySonicHack_def by (rule sonic_loop_no_trigger) (use a in blast)
qed

theorem hacks_gated_and_need_trigger_witness:
  "QUEUE_HACK_RENDERPASS_MERGE AND QUEUE_HACK_MGS2_ACID = 0 \<and>
   QUEUE_HACK_RENDERPASS_MERGE AND QUEUE_HACK_SONIC = 0 \<and>
   apply_hacks debug_build QUEUE_HACK_RENDERPASS_MERGE frame6 = Inr (ApplyRenderPassMerge frame6) \<and>
   ApplyMGSHack debug_build frame10 = Inr frame10 \<and>
   ApplySonicHack frame10 = frame10"
proof -
  have bits: "QUEUE_HACK_RENDERPASS_MERGE AND QUEUE_HACK_MGS2_ACID = 0"
      "QUEUE_HACK_RENDERPASS_MERGE AND QUEUE_HACK_SONIC = 0"
      "QUEUE_HACK_RENDERPASS_MERGE AND QUEUE_HACK_RENDERPASS_MERGE \<noteq> 0"
    by (simp_all add: QUEUE_HACK_RENDERPASS_MERGE_def QUEUE_HACK_MGS2_ACID_def QUEUE_HACK_SONIC_def)
  have len: "length frame10 = 5" by (simp add: frame10_def)
  have m: "\<forall>i. i + 3 < length frame10 \<longrightarrow>
        \<not> (mgs_copy_head frame10 i \<and> mgs_copy_scan frame10 i i \<noteq> - 1) \<and>
        \<not> mgs_depal_head frame10 i"
  proof (intro allI impI)
    fix i :: nat assume "i + 3 < length frame10"
    then have "i = 0 \<or> i = 1" using len by auto
    moreover have "\<not> mgs_copy_head frame10 0" "\<not> mgs_copy_head frame10 1"
      "\<not> mgs_depal_head frame10 0" "\<not> mgs_depal_head frame10 1"
      by code_simp+
    ultimately show "\<not> (mgs_copy_head frame10 i \<and> mgs_copy_scan frame10 i i \<noteq> - 1) \<and>
        \<not> mgs_depal_head frame10 i" by auto
  qed
  have s: "\<forall>i. i + 4 < length frame10 \<longrightarrow>
        \<not> (sonic_head frame10 i \<and> sonic_scan frame10 i i \<noteq> - 1)"
  proof (intro allI impI)
    fix i :: nat assume "i + 4 < length frame10"
    then have "i = 0" using len by auto
    moreover have "\<not> sonic_head frame10 0" by code_simp
    ultimately show "\<not> (sonic_head frame10 i \<and> sonic_scan frame10 i i \<noteq> - 1)" by auto
  qed
  note t = hacks_gated_and_need_trigger[of QUEUE_HACK_RENDERPASS_MERGE debug_build frame6]
  note u = hacks_gated_and_need_trigger[of 0 debug_build frame10]
  have "apply_hacks debug_build QUEUE_HACK_RENDERPASS_MERGE frame6 = Inr (ApplyRenderPassMerge frame6)"
    using t bits by simp
  moreover have "ApplyMGSHack debug_build frame10 = Inr frame10" using u m by blast
  moreover have "ApplySonicHack frame10 = frame10" using u s by blast
  ultimately show ?thesis using bits by simp
qed

section \<open>Verification: the render pass cache\<close>

lemma GetRenderPass_hit:
  "DenseHashMap_Get (renderPasses st) key \<noteq> VK_NULL_HANDLE \<Longrightarrow>
   GetRenderPass b dev key st = Inr (DenseHashMap_Get (renderPasses st) key, st)"
  by (simp add: GetRenderPass_def)

lemma GetRenderPass_result:
  assumes "GetRenderPass b dev key st = Inr (pass, st')"
  shows "DenseHashMap_Get (renderPasses st') key = pass" and "pass \<noteq> VK_NULL_HANDLE"
    and "st' = st \<or>
         (DenseHashMap_Get (renderPasses st) key = VK_NULL_HANDLE \<and>
          st' = st\<lparr>createdRenderPasses :=
                      createdRenderPasses st @ [(pass, render_pass_info dev key)],
                    renderPasses := DenseHashMap_Insert key pass (renderPasses st)\<rparr>)"
  using assms
  by (auto simp: GetRenderPass_def Let_def DenseHashMap_Get_def DenseHashMap_Insert_def
           split: if_splits prod.splits option.splits)

lemma GetRenderPass_keeps_present:
  assumes "GetRenderPass b dev key2 st = Inr (pass2, st')"
    and "DenseHashMap_Get (renderPasses st) key \<noteq> VK_NULL_HANDLE"
  shows "DenseHashMap_Get (renderPasses st') key = DenseHashMap_Get (renderPasses st) key"
proof (cases "key2 = key")
  case True
  then show ?thesis using assms GetRenderPass_hit[of st key b dev] by simp
next
  case False
  from GetRenderPass_result(3)[OF assms(1)] show ?thesis
    using False by (auto simp: DenseHashMap_Get_def DenseHashMap_Insert_def)
qed

text \<open>Calling GetRenderPass for a list of keys, one after the other.\<close>

fun GetRenderPasses :: "BuildConfig \<Rightarrow> Device \<Rightarrow> RPKey list \<Rightarrow> QueueRunner \<Rightarrow> fatal + (nat list \<times> QueueRunner)" where
  "GetRenderPasses b dev [] st = Inr ([], st)"
| "GetRenderPasses b dev (key # keys) st =
     (case GetRenderPass b dev key st of
        Inl e \<Rightarrow> Inl e
      | Inr (pass, st1) \<Rightarrow>
          (case GetRenderPasses b dev keys st1 of
             Inl e \<Rightarrow> Inl e
           | Inr (passes, st2) \<Rightarrow> Inr (pass # passes, st2)))"

text \<open>The hardware objects created so far from the create info of a key.\<close>

definition created_for :: "Device \<Rightarrow> RPKey \<Rightarrow> QueueRunner \<Rightarrow> nat" where
  "created_for dev key st =
     length (filter (\<lambda>c. snd c = render_pass_info dev key) (createdRenderPasses st))"

text \<open>
  For one and the same key, padding byte included, the cache behaves as a cache: a
  present key is a pure lookup, and a call that succeeds returns a handle that is not
  null and that the same call returns again without any change of the state.
\<close>

lemma GetRenderPass_repeat:
  "(DenseHashMap_Get (renderPasses st) key \<noteq> VK_NULL_HANDLE \<longrightarrow>
      GetRenderPass b dev key st = Inr (DenseHashMap_Get (renderPasses st) key, st)) \<and>
   (GetRenderPass b dev key st = Inr (pass, st1) \<longrightarrow>
      pass \<noteq> VK_NULL_HANDLE \<and> GetRenderPass b dev key st1 = Inr (pass, st1))"
proof (intro conjI impI)
  assume "DenseHashMap_Get (renderPasses st) key \<noteq> VK_NULL_HANDLE"
  then show "GetRenderPass b dev key st = Inr (DenseHashMap_Get (renderPasses st) key, st)"
    by (rule GetRenderPass_hit)
next
  assume a: "GetRenderPass b dev key st = Inr (pass, st1)"
  show "pass \<noteq> VK_NULL_HANDLE" by (rule GetRenderPass_result(2)[OF a])
  show "GetRenderPass b dev key st1 = Inr (pass, st1)"
    using GetRenderPass_hit[of st1 key b dev] GetRenderPass_result(1,2)[OF a] by simp
qed

text \<open>
  The create info is built from the six members of the key and not from its padding.
\<close>

lemma render_pass_info_padding:
  "render_pass_info dev (key\<lparr>padding := pad\<rparr>) = render_pass_info dev key"
  by (simp add: render_pass_info_def)

text \<open>
  C3 holds of the map and fails in the code that builds the keys. The overload of
  GetRenderPass with six arguments, the one the executor calls (line 1165), leaves the
  padding byte of its key as the stack has it, so two calls with the same six arguments
  can look up two different keys. \<open>example_key\<close> and \<open>example_key_padded\<close> agree in all
  six members and differ in the padding byte: the second call misses the entry of the
  first, a second render pass is created from the same create info, and the two calls
  return different handles.
\<close>

theorem GetRenderPass_misses_on_padding:
  "colorLoadAction example_key_padded = colorLoadAction example_key \<and>
   depthLoadAction example_key_padded = depthLoadAction example_key \<and>
   stencilLoadAction example_key_padded = stencilLoadAction example_key \<and>
   prevColorLayout example_key_padded = prevColorLayout example_key \<and>
   prevDepthLayout example_key_padded = prevDepthLayout example_key \<and>
   key_finalColorLayout example_key_padded = key_finalColorLayout example_key \<and>
   render_pass_info example_device example_key_padded =
     render_pass_info example_device example_key \<and>
   (case GetRenderPasses debug_build example_device [example_key, example_key_padded]
           (QueueRunner_new example_framebuffer) of
      Inl e \<Rightarrow> False
    | Inr (passes, st2) \<Rightarrow>
        passes = [1000, 1001] \<and>
        map fst (createdRenderPasses st2) = [1000, 1001] \<and>
        created_for example_device example_key st2 = 2)"
proof -
  define st0 where "st0 = QueueRunner_new example_framebuffer"
  have k: "example_key_padded \<noteq> example_key"
    by (simp add: example_key_padded_def example_key_def)
  have i: "render_pass_info example_device example_key_padded =
           render_pass_info example_device example_key"
    unfolding example_key_padded_def by (rule render_pass_info_padding)
  obtain st1 where g1: "GetRenderPass debug_build example_device example_key st0 = Inr (1000, st1)"
    by (simp add: GetRenderPass_def st0_def QueueRunner_new_def DenseHashMap_Get_def Let_def
        debug_build_def example_key_def example_device_def prev_color_expected_def
        prev_depth_expected_def final_color_expected_def)
  have s1: "st1 = st0\<lparr>createdRenderPasses :=
                      createdRenderPasses st0 @ [(1000, render_pass_info example_device example_key)],
                    renderPasses := DenseHashMap_Insert example_key 1000 (renderPasses st0)\<rparr>"
    using GetRenderPass_result(1,3)[OF g1]
    by (auto simp: st0_def QueueRunner_new_def DenseHashMap_Get_def)
  have n1: "DenseHashMap_Get (renderPasses st1) example_key_padded = VK_NULL_HANDLE"
    using k by (simp add: s1 st0_def QueueRunner_new_def DenseHashMap_Get_def DenseHashMap_Insert_def)
  have l1: "length (createdRenderPasses st1) = 1"
    by (simp add: s1 st0_def QueueRunner_new_def)
  obtain st2 where
    g2: "GetRenderPass debug_build example_device example_key_padded st1 = Inr (1001, st2)"
    using n1 l1
    by (simp add: GetRenderPass_def Let_def debug_build_def example_key_padded_def example_key_def
        example_device_def prev_color_expected_def prev_depth_expected_def final_color_expected_def)
  have s2: "st2 = st1\<lparr>createdRenderPasses :=
                      createdRenderPasses st1 @
                        [(1001, render_pass_info example_device example_key_padded)],
                    renderPasses := DenseHashMap_Insert example_key_padded 1001 (renderPasses st1)\<rparr>"
    using GetRenderPass_result(1,3)[OF g2] n1 by auto
  have c: "createdRenderPasses st2 =
           [(1000, render_pass_info example_device example_key),
            (1001, render_pass_info example_device example_key)]"
    by (simp add: s2 s1 i st0_def QueueRunner_new_def)
  have all: "GetRenderPasses debug_build example_device [example_key, example_key_padded] st0 =
             Inr ([1000, 1001], st2)"
    using g1 g2 by simp
  have f: "colorLoadAction example_key_padded = colorLoadAction example_key"
    "depthLoadAction example_key_padded = depthLoadAction example_key"
    "stencilLoadAction example_key_padded = stencilLoadAction example_key"
    "prevColorLayout example_key_padded = prevColorLayout example_key"
    "prevDepthLayout example_key_padded = prevDepthLayout example_key"
    "key_finalColorLayout example_key_padded = key_finalColorLayout example_key"
    by (simp_all add: example_key_padded_def)
  show ?thesis
    using f i all c unfolding st0_def by (simp add: created_for_def)
qed

text \<open>
  The same through RunSteps. The two Render steps of \<open>frame12\<close> make the executor ask
  for a render pass with the same six arguments. On a device where the padding byte is
  the same at both calls one render pass is created; where it differs, two are created
  from equal create infos.
\<close>

lemma render_passes_of_equal_steps:
  "(case RunSteps debug_build example_device frame12 None (QueueRunner_new example_framebuffer) of
      Inl e \<Rightarrow> False
    | Inr (p, st') \<Rightarrow> map fst (createdRenderPasses st') = [1000]) \<and>
   (case RunSteps debug_build stack_device frame12 None (QueueRunner_new example_framebuffer) of
      Inl e \<Rightarrow> False
    | Inr (p, st') \<Rightarrow>
        map fst (createdRenderPasses st') = [1000, 1001] \<and>
        snd (createdRenderPasses st' ! 0) = snd (createdRenderPasses st' ! 1))"
proof -
  have o: "optimize_steps debug_build 0 frame12 =
     Inr [final_layout_step VK_IMAGE_LAYOUT_COLOR_ATTACHMENT_OPTIMAL (render_step 1 1 [draw_command 1]),
          final_layout_step VK_IMAGE_LAYOUT_COLOR_ATTACHMENT_OPTIMAL (render_step 2 1 [draw_command 2])]"
    by code_simp
  have h: "runner_hacksEnabled (QueueRunner_new example_framebuffer) = 0"
    by (simp add: QueueRunner_new_def)
  have r: "RunSteps debug_build dev frame12 None (QueueRunner_new example_framebuffer) =
     execute_steps debug_build dev
       [final_layout_step VK_IMAGE_LAYOUT_COLOR_ATTACHMENT_OPTIMAL (render_step 1 1 [draw_command 1]),
        final_layout_step VK_IMAGE_LAYOUT_COLOR_ATTACHMENT_OPTIMAL (render_step 2 1 [draw_command 2])]
       (None, QueueRunner_new example_framebuffer)" for dev
    by (simp add: RunSteps_def h o bind_fatal_def)
  show ?thesis
    unfolding r
    by (simp add: perform_step_def
      PerformRenderPass_def bind_fatal_def final_layout_step_def render_step_def
      VKRStep_new_def empty_keep_pass_def QueueRunner_new_def example_framebuffer_def
      PerformBindFramebufferAsRenderTarget_def debug_build_def maliBugWorkaround_def
      example_device_def stack_device_def GetRenderPass_fields_def GetRenderPass_def Let_def
      DenseHashMap_Get_def DenseHashMap_Insert_def
      prev_color_expected_def prev_depth_expected_def final_color_expected_def draw_command_def
      replay_command_def replay_start_def replay_stencil_def
      TinySet_empty_def set_color_layout_def set_color_image_def set_depth_layout_def
      set_depth_image_def emit_def render_pass_info_def)
qed

section \<open>Verification: layout transitions\<close>

lemma Setup_src_layout:
  "SetupTransitionToTransferSrc b img stage aspect = Inr (img', barrier, stage') \<Longrightarrow>
   img' = img\<lparr>layout := VK_IMAGE_LAYOUT_TRANSFER_SRC_OPTIMAL\<rparr>"
  by (auto simp: SetupTransitionToTransferSrc_def Let_def split: if_splits prod.splits)

lemma Setup_dst_layout:
  "SetupTransitionToTransferDst b img stage aspect = Inr (img', barrier, stage') \<Longrightarrow>
   img' = img\<lparr>layout := VK_IMAGE_LAYOUT_TRANSFER_DST_OPTIMAL\<rparr>"
  by (auto simp: SetupTransitionToTransferDst_def Let_def split: if_splits prod.splits)

lemma transition_src_result:
  assumes "transition_to_transfer_src b img barriers stage aspect = Inr (img1, barriers1, stage1)"
  shows "layout img1 = VK_IMAGE_LAYOUT_TRANSFER_SRC_OPTIMAL"
    and "length barriers1 =
           length barriers + (if layout img = VK_IMAGE_LAYOUT_TRANSFER_SRC_OPTIMAL then 0 else 1)"
    and "layout img = VK_IMAGE_LAYOUT_TRANSFER_SRC_OPTIMAL \<Longrightarrow> img1 = img \<and> barriers1 = barriers"
  using assms
  by (auto simp: transition_to_transfer_src_def bind_fatal_def
           split: if_splits sum.splits prod.splits dest: Setup_src_layout)

lemma transition_dst_result:
  assumes "transition_to_transfer_dst b img barriers stage aspect = Inr (img1, barriers1, stage1)"
  shows "layout img1 = VK_IMAGE_LAYOUT_TRANSFER_DST_OPTIMAL"
    and "length barriers1 =
           length barriers + (if layout img = VK_IMAGE_LAYOUT_TRANSFER_DST_OPTIMAL then 0 else 1)"
    and "layout img = VK_IMAGE_LAYOUT_TRANSFER_DST_OPTIMAL \<Longrightarrow> img1 = img \<and> barriers1 = barriers"
  using assms
  by (auto simp: transition_to_transfer_dst_def bind_fatal_def
           split: if_splits sum.splits prod.splits dest: Setup_dst_layout)

lemma layout_set_color_layout [simp]:
  "layout (fb_color (framebuffers (set_color_layout p l st) p)) = l"
  by (simp add: set_color_layout_def set_color_image_def)

lemma cmds_set_color_layout [simp]: "cmds (set_color_layout p l st) = cmds st"
  by (simp add: set_color_layout_def set_color_image_def)

lemma cmds_emit [simp]: "cmds (emit c st) = cmds st @ [c]"
  by (simp add: emit_def)

lemma framebuffers_emit [simp]: "framebuffers (emit c st) = framebuffers st"
  by (simp add: emit_def)

lemma pre_transition_result:
  assumes "pre_transition tr st = Inr st1"
  shows "layout (fb_color (framebuffers st1 (req_fb tr))) = targetLayout tr"
    and "length (cmds st1) = length (cmds st) +
           (if layout (fb_color (framebuffers st (req_fb tr))) = targetLayout tr then 0 else 1)"
  using assms
  by (auto simp: pre_transition_def Let_def split: if_splits prod.splits)

lemma pre_transition_noop:
  "layout (fb_color (framebuffers st (req_fb tr))) = targetLayout tr \<Longrightarrow> pre_transition tr st = Inr st"
  by (simp add: pre_transition_def Let_def)

text \<open>
  C4, as stated, fails for an image whose layout tag already equals the target: the guard
  of the callers fails at the first request too, so two requests in a row emit no barrier
  at all, not one.
\<close>

theorem transition_twice_no_barrier:
  "transition_to_transfer_src debug_build (image_in VK_IMAGE_LAYOUT_TRANSFER_SRC_OPTIMAL) [] 0
     VK_IMAGE_ASPECT_COLOR_BIT = Inr (image_in VK_IMAGE_LAYOUT_TRANSFER_SRC_OPTIMAL, [], 0)"
  by (simp add: transition_to_transfer_src_def image_in_def)

text \<open>
  C4, amended. For the transition to TRANSFER_SRC_OPTIMAL, the transition to
  TRANSFER_DST_OPTIMAL and a pre-transition of a Render step alike: a request that
  succeeds leaves the layout tag at the target layout and adds one barrier if the tag
  differed from the target and none if it did not; the same request made again returns
  the same image and barriers, so two requests in a row emit at most one barrier.
\<close>

theorem transition_twice_at_most_one_barrier:
  "(transition_to_transfer_src b img barriers stage aspect = Inr (img1, barriers1, stage1) \<longrightarrow>
      layout img1 = VK_IMAGE_LAYOUT_TRANSFER_SRC_OPTIMAL \<and>
      length barriers1 =
        length barriers + (if layout img = VK_IMAGE_LAYOUT_TRANSFER_SRC_OPTIMAL then 0 else 1) \<and>
      transition_to_transfer_src b img1 barriers1 stage1 aspect = Inr (img1, barriers1, stage1)) \<and>
   (transition_to_transfer_dst b img barriers stage aspect = Inr (img1, barriers1, stage1) \<longrightarrow>
      layout img1 = VK_IMAGE_LAYOUT_TRANSFER_DST_OPTIMAL \<and>
      length barriers1 =
        length barriers + (if layout img = VK_IMAGE_LAYOUT_TRANSFER_DST_OPTIMAL then 0 else 1) \<and>
      transition_to_transfer_dst b img1 barriers1 stage1 aspect = Inr (img1, barriers1, stage1)) \<and>
   (pre_transition tr st = Inr st1 \<longrightarrow>
      layout (fb_color (framebuffers st1 (req_fb tr))) = targetLayout tr \<and>
      length (cmds st1) =
        length (cmds st) +
          (if layout (fb_color (framebuffers st (req_fb tr))) = targetLayout tr then 0 else 1) \<and>
      pre_transition tr st1 = Inr st1)"
proof (intro conjI impI)
  assume a: "transition_to_transfer_src b img barriers stage aspect = Inr (img1, barriers1, stage1)"
  show "layout img1 = VK_IMAGE_LAYOUT_TRANSFER_SRC_OPTIMAL" by (rule transition_src_result(1)[OF a])
  then show "transition_to_transfer_src b img1 barriers1 stage1 aspect = Inr (img1, barriers1, stage1)"
    by (simp add: transition_to_transfer_src_def)
  show "length barriers1 =
        length barriers + (if layout img = VK_IMAGE_LAYOUT_TRANSFER_SRC_OPTIMAL then 0 else 1)"
    by (rule transition_src_result(2)[OF a])
next
  assume a: "transition_to_transfer_dst b img barriers stage aspect = Inr (img1, barriers1, stage1)"
  show "layout img1 = VK_IMAGE_LAYOUT_TRANSFER_DST_OPTIMAL" by (rule transition_dst_result(1)[OF a])
  then show "transition_to_transfer_dst b img1 barriers1 stage1 aspect = Inr (img1, barriers1, stage1)"
    by (simp add: transition_to_transfer_dst_def)
  show "length barriers1 =
        length barriers + (if layout img = VK_IMAGE_LAYOUT_TRANSFER_DST_OPTIMAL then 0 else 1)"
    by (rule transition_dst_result(2)[OF a])
next
  assume a: "pre_transition tr st = Inr st1"
  show l: "layout (fb_color (framebuffers st1 (req_fb tr))) = targetLayout tr"
    by (rule pre_transition_result(1)[OF a])
  show "pre_transition tr st1 = Inr st1" by (rule pre_transition_noop[OF l])
  show "length (cmds st1) =
        length (cmds st) +
          (if layout (fb_color (framebuffers st (req_fb tr))) = targetLayout tr then 0 else 1)"
    by (rule pre_transition_result(2)[OF a])
qed

theorem transition_twice_at_most_one_barrier_witness:
  "\<exists>barrier stage1.
     transition_to_transfer_src debug_build (image_in VK_IMAGE_LAYOUT_COLOR_ATTACHMENT_OPTIMAL) [] 0
       VK_IMAGE_ASPECT_COLOR_BIT =
       Inr (image_in VK_IMAGE_LAYOUT_TRANSFER_SRC_OPTIMAL, [barrier], stage1) \<and>
     transition_to_transfer_src debug_build (image_in VK_IMAGE_LAYOUT_TRANSFER_SRC_OPTIMAL)
       [barrier] stage1 VK_IMAGE_ASPECT_COLOR_BIT =
       Inr (image_in VK_IMAGE_LAYOUT_TRANSFER_SRC_OPTIMAL, [barrier], stage1)"
proof -
  obtain barrier stage1 where
    a: "transition_to_transfer_src debug_build (image_in VK_IMAGE_LAYOUT_COLOR_ATTACHMENT_OPTIMAL) [] 0
       VK_IMAGE_ASPECT_COLOR_BIT =
       Inr (image_in VK_IMAGE_LAYOUT_TRANSFER_SRC_OPTIMAL, [barrier], stage1)"
    by (simp add: transition_to_transfer_src_def SetupTransitionToTransferSrc_def bind_fatal_def
        image_in_def debug_build_def Let_def)
  from transition_twice_at_most_one_barrier
    [of debug_build "image_in VK_IMAGE_LAYOUT_COLOR_ATTACHMENT_OPTIMAL" "[]" 0
        VK_IMAGE_ASPECT_COLOR_BIT "image_in VK_IMAGE_LAYOUT_TRANSFER_SRC_OPTIMAL" "[barrier]" stage1]
  have "transition_to_transfer_src debug_build (image_in VK_IMAGE_LAYOUT_TRANSFER_SRC_OPTIMAL)
       [barrier] stage1 VK_IMAGE_ASPECT_COLOR_BIT =
       Inr (image_in VK_IMAGE_LAYOUT_TRANSFER_SRC_OPTIMAL, [barrier], stage1)"
    using a by blast
  then show ?thesis using a by blast
qed

section \<open>Verification: the final layout of a render pass\<close>

lemma PerformRenderPass_empty_keep:
  "empty_keep_pass step \<Longrightarrow>
   PerformRenderPass b dev step st = pre_transitions (preTransitions step) st"
  by (cases "pre_transitions (preTransitions step) st")
     (simp_all add: PerformRenderPass_def bind_fatal_def)

text \<open>
  C5, as stated, fails for an empty Render step that keeps color, depth and stencil:
  PerformRenderPass returns before it begins the pass (lines 955-959), and the color
  layout tag of the framebuffer stays what it was.
\<close>

theorem empty_keep_pass_leaves_layout:
  "framebuffer (render (keep_step 1)) \<noteq> nullptr \<and>
   finalColorLayout (render (keep_step 1)) = VK_IMAGE_LAYOUT_COLOR_ATTACHMENT_OPTIMAL \<and>
   PerformRenderPass debug_build example_device (keep_step 1) (QueueRunner_new example_framebuffer)
     = Inr (QueueRunner_new example_framebuffer) \<and>
   layout (fb_color (framebuffers (QueueRunner_new example_framebuffer) 1)) = VK_IMAGE_LAYOUT_UNDEFINED"
  by (simp add: PerformRenderPass_def bind_fatal_def keep_step_def VKRStep_new_def empty_keep_pass_def
      QueueRunner_new_def example_framebuffer_def)

lemma ex_render:
  "\<exists>st'. PerformRenderPass debug_build example_device
      (final_layout_step VK_IMAGE_LAYOUT_SHADER_READ_ONLY_OPTIMAL (render_step 1 1 [draw_command 1]))
      (QueueRunner_new example_framebuffer) = Inr st'"
  by (simp add: PerformRenderPass_def bind_fatal_def final_layout_step_def render_step_def
      VKRStep_new_def empty_keep_pass_def QueueRunner_new_def example_framebuffer_def
      PerformBindFramebufferAsRenderTarget_def debug_build_def maliBugWorkaround_def
      example_device_def GetRenderPass_fields_def GetRenderPass_def Let_def DenseHashMap_Get_def
      prev_color_expected_def prev_depth_expected_def final_color_expected_def draw_command_def
      replay_command_def
      TinySet_empty_def set_color_layout_def set_color_image_def set_depth_layout_def
      set_depth_image_def emit_def)

text \<open>
  C5, amended. For every Render step that targets an offscreen framebuffer and is not an
  empty pass keeping color, depth and stencil, after PerformRenderPass has run the step
  the color layout tag of the framebuffer equals the final color layout of the step. For
  an empty pass that keeps all three, PerformRenderPass does the pre-transitions of the
  step and nothing else.
\<close>

theorem PerformRenderPass_final_layout:
  "(PerformRenderPass b dev step st = Inr st' \<and> framebuffer (render step) \<noteq> nullptr \<and>
    \<not> empty_keep_pass step \<longrightarrow>
      layout (fb_color (framebuffers st' (framebuffer (render step)))) =
        finalColorLayout (render step)) \<and>
   (empty_keep_pass step \<longrightarrow>
      PerformRenderPass b dev step st = pre_transitions (preTransitions step) st)"
proof (intro conjI impI)
  assume a: "PerformRenderPass b dev step st = Inr st' \<and> framebuffer (render step) \<noteq> nullptr \<and>
    \<not> empty_keep_pass step"
  then obtain st5 where
    "st' = set_color_layout (framebuffer (render step)) (finalColorLayout (render step)) st5"
    by (auto simp: PerformRenderPass_def bind_fatal_def Let_def split: sum.splits prod.splits if_splits)
  then show "layout (fb_color (framebuffers st' (framebuffer (render step)))) =
        finalColorLayout (render step)" by simp
next
  assume "empty_keep_pass step"
  then show "PerformRenderPass b dev step st = pre_transitions (preTransitions step) st"
    by (rule PerformRenderPass_empty_keep)
qed

theorem PerformRenderPass_final_layout_witness:
  "framebuffer (render (render_step 1 1 [draw_command 1])) \<noteq> nullptr \<and>
   (\<exists>st'. PerformRenderPass debug_build example_device
            (final_layout_step VK_IMAGE_LAYOUT_SHADER_READ_ONLY_OPTIMAL
               (render_step 1 1 [draw_command 1]))
            (QueueRunner_new example_framebuffer) = Inr st' \<and>
          layout (fb_color (framebuffers st' 1)) = VK_IMAGE_LAYOUT_SHADER_READ_ONLY_OPTIMAL) \<and>
   empty_keep_pass (keep_step 1) \<and>
   PerformRenderPass debug_build example_device (keep_step 1) (QueueRunner_new example_framebuffer) =
     pre_transitions (preTransitions (keep_step 1)) (QueueRunner_new example_framebuffer)"
proof -
  define step where "step = final_layout_step VK_IMAGE_LAYOUT_SHADER_READ_ONLY_OPTIMAL
               (render_step 1 1 [draw_command 1])"
  define st0 where "st0 = QueueRunner_new example_framebuffer"
  obtain st' where p: "PerformRenderPass debug_build example_device step st0 = Inr st'"
    using ex_render unfolding step_def st0_def by blast
  have s: "framebuffer (render step) = 1" "\<not> empty_keep_pass step"
    "finalColorLayout (render step) = VK_IMAGE_LAYOUT_SHADER_READ_ONLY_OPTIMAL"
    by (simp_all add: step_def final_layout_step_def render_step_def VKRStep_new_def
        empty_keep_pass_def draw_command_def)
  have l: "layout (fb_color (framebuffers st' 1)) = VK_IMAGE_LAYOUT_SHADER_READ_ONLY_OPTIMAL"
    using PerformRenderPass_final_layout[of debug_build example_device step st0 st'] p s by simp
  have k: "empty_keep_pass (keep_step 1)"
    by (simp add: keep_step_def VKRStep_new_def empty_keep_pass_def)
  have e: "PerformRenderPass debug_build example_device (keep_step 1) st0 =
     pre_transitions (preTransitions (keep_step 1)) st0"
    using PerformRenderPass_final_layout[of debug_build example_device "keep_step 1" st0 st0] k
    by blast
  have n: "framebuffer (render (render_step 1 1 [draw_command 1])) \<noteq> nullptr"
    by (simp add: render_step_def VKRStep_new_def)
  show ?thesis using n p l k e unfolding step_def st0_def by blast
qed

section \<open>Verification: the readback buffer\<close>



lemma ResizeReadbackBuffer_fields:
  assumes "ResizeReadbackBuffer dev requiredSize st = Inr st1"
  shows "framebuffers st1 = framebuffers st" and "cmds st1 = cmds st"
  using assms
  by (auto simp: ResizeReadbackBuffer_def Let_def split: if_splits prod.splits)

lemma readback_fields_emit [simp]:
  "readbackBuffer (emit c st) = readbackBuffer st"
  "readbackBufferSize (emit c st) = readbackBufferSize st"
  "createdBuffers (emit c st) = createdBuffers st"
  by (simp_all add: emit_def)

lemma readback_fields_set_image [simp]:
  "readbackBuffer (set_color_image p i st) = readbackBuffer st"
  "readbackBufferSize (set_color_image p i st) = readbackBufferSize st"
  "createdBuffers (set_color_image p i st) = createdBuffers st"
  "readbackBuffer (set_depth_image p i st) = readbackBuffer st"
  "readbackBufferSize (set_depth_image p i st) = readbackBufferSize st"
  "createdBuffers (set_depth_image p i st) = createdBuffers st"
  by (simp_all add: set_color_image_def set_depth_image_def)

lemma readback_fields_TransitionImageLayout2 [simp]:
  "readbackBuffer (TransitionImageLayout2 i a l1 l2 s1 s2 a1 a2 st) = readbackBuffer st"
  "readbackBufferSize (TransitionImageLayout2 i a l1 l2 s1 s2 a1 a2 st) = readbackBufferSize st"
  "createdBuffers (TransitionImageLayout2 i a l1 l2 s1 s2 a1 a2 st) = createdBuffers st"
  by (simp_all add: TransitionImageLayout2_def)








section \<open>Verification: unsupported format pairs in CopyReadbackBuffer\<close>

definition unsupported_pair :: "DataFormat \<Rightarrow> DataFormat \<Rightarrow> bool" where
  "unsupported_pair srcFormat destFormat =
     (srcFormat \<noteq> R8G8B8A8_UNORM \<and> srcFormat \<noteq> B8G8R8A8_UNORM \<and> srcFormat \<noteq> destFormat \<and>
      destFormat \<noteq> D32F)"

text \<open>
  C9, as stated, fails in a build without NDEBUG: after the error is logged,
  \<open>assert(false)\<close> aborts the process, so the caller does not proceed.
\<close>

theorem unsupported_pair_aborts_debug_build:
  "unsupported_pair (DataFormat_other 1) (DataFormat_other 2) \<and>
   CopyReadbackBuffer debug_build example_device example_converters [9, 9, 9, 9] 1 1
     (DataFormat_other 1) (DataFormat_other 2) 1 [1, 2, 3, 4]
     (with_readback_memory (QueueRunner_new example_framebuffer)) =
   Aborted ASSERT_UNKNOWN_FORMAT
     ((with_readback_memory (QueueRunner_new example_framebuffer))\<lparr>logged := [ELOG_Unknown_format]\<rparr>)"
  by (simp add: CopyReadbackBuffer_def unsupported_pair_def with_readback_memory_def
      QueueRunner_new_def example_device_def debug_build_def)

text \<open>
  C9, amended. With a format pair outside the supported set, CopyReadbackBuffer never
  writes into the destination. Without readback memory it returns at once and logs
  nothing; if mapping the memory fails it logs that failure and returns; otherwise it
  logs the unknown format, and then returns to the caller in a build with NDEBUG and
  aborts at \<open>assert(false)\<close> in a build without.
\<close>

theorem unsupported_pair_writes_nothing:
  "unsupported_pair srcFormat destFormat \<longrightarrow>
     CopyReadbackBuffer b dev conv mappedData w h srcFormat destFormat pixelStride pixels st =
       (if readbackMemory st = VK_NULL_HANDLE then Returned pixels st
        else if \<not> vkMapMemory dev (readbackMemory st)
        then Returned pixels (st\<lparr>logged := logged st @ [ELOG_vkMapMemory_failed]\<rparr>)
        else if NDEBUG b
        then Returned pixels (st\<lparr>logged := logged st @ [ELOG_Unknown_format]\<rparr>)
        else Aborted ASSERT_UNKNOWN_FORMAT (st\<lparr>logged := logged st @ [ELOG_Unknown_format]\<rparr>))"
  by (simp add: CopyReadbackBuffer_def unsupported_pair_def)

theorem unsupported_pair_writes_nothing_witness:
  "unsupported_pair (DataFormat_other 1) (DataFormat_other 2) \<and>
   CopyReadbackBuffer release_build example_device example_converters [9, 9, 9, 9] 1 1
     (DataFormat_other 1) (DataFormat_other 2) 1 [1, 2, 3, 4]
     (with_readback_memory (QueueRunner_new example_framebuffer)) =
   Returned [1, 2, 3, 4]
     ((with_readback_memory (QueueRunner_new example_framebuffer))\<lparr>logged := [ELOG_Unknown_format]\<rparr>) \<and>
   CopyReadbackBuffer release_build example_device example_converters [9, 9, 9, 9] 1 1
     (DataFormat_other 1) (DataFormat_other 2) 1 [1, 2, 3, 4]
     (QueueRunner_new example_framebuffer) =
   Returned [1, 2, 3, 4] (QueueRunner_new example_framebuffer)"
proof -
  have u: "unsupported_pair (DataFormat_other 1) (DataFormat_other 2)"
    by (simp add: unsupported_pair_def)
  have m: "readbackMemory (with_readback_memory (QueueRunner_new example_framebuffer)) = 3000"
    "logged (with_readback_memory (QueueRunner_new example_framebuffer)) = []"
    "readbackMemory (QueueRunner_new example_framebuffer) = 0"
    "vkMapMemory example_device 3000" "NDEBUG release_build"
    by (simp_all add: with_readback_memory_def QueueRunner_new_def example_device_def
        release_build_def)
  show ?thesis
    using unsupported_pair_writes_nothing[of "DataFormat_other 1" "DataFormat_other 2"
        release_build example_device example_converters "[9, 9, 9, 9]" 1 1 1 "[1, 2, 3, 4]"
        "with_readback_memory (QueueRunner_new example_framebuffer)"]
      unsupported_pair_writes_nothing[of "DataFormat_other 1" "DataFormat_other 2"
        release_build example_device example_converters "[9, 9, 9, 9]" 1 1 1 "[1, 2, 3, 4]"
        "QueueRunner_new example_framebuffer"]
      u m by simp
qed

section \<open>Verification: final color layouts are defined at execution time\<close>

text \<open>
  The property of a step that the executor asserts: a RENDER step to an offscreen
  framebuffer has a final color layout other than UNDEFINED.
\<close>

definition final_layout_defined :: "VKRStep \<Rightarrow> bool" where
  "final_layout_defined s =
     (stepType s = RENDER \<and> framebuffer (render s) \<noteq> nullptr \<longrightarrow>
      finalColorLayout (render s) \<noteq> VK_IMAGE_LAYOUT_UNDEFINED)"



lemma fld_commands [simp]:
  "final_layout_defined (s\<lparr>commands := c\<rparr>) = final_layout_defined s"
  "final_layout_defined (s\<lparr>preTransitions := t\<rparr>) = final_layout_defined s"
  by (simp_all add: final_layout_defined_def)

lemma fld_skip [simp]: "final_layout_defined (s\<lparr>stepType := RENDER_SKIP\<rparr>)"
  by (simp add: final_layout_defined_def)



















subsection \<open>Where the executor can fail\<close>

























subsection \<open>The claim about the final color layout\<close>





end
